theory Spec2Isabelle
  imports Complex_Main
begin

section \<open>Toolkit value types\<close>

text \<open>
  The editors are written against the toolkit's geometry classes. Their arithmetic is
  modelled here as the toolkit documents it: \<open>int\<close> stands for the C++ \<open>int\<close>
  (screen coordinates are far from the overflow range) and \<open>real\<close> for \<open>qreal\<close>
  (the editors only add, subtract, scale, compare and round coordinates).
\<close>

text \<open>Conversion of a \<open>qreal\<close> to \<open>int\<close> by the language: truncation towards zero.\<close>

definition cint :: "real \<Rightarrow> int" where
  "cint d = (if 0 \<le> d then \<lfloor>d\<rfloor> else \<lceil>d\<rceil>)"

text \<open>\<open>qRound(double)\<close>:
  \<^verbatim>\<open>d >= 0.0 ? int(d + 0.5) : int(d - double(int(d-1)) + 0.5) + int(d-1)\<close>.\<close>

definition qRound :: "real \<Rightarrow> int" where
  "qRound d =
     (if 0 \<le> d then cint (d + 1 / 2)
      else cint (d - real_of_int (cint (d - 1)) + 1 / 2) + cint (d - 1))"

record qpoint =
  px :: int
  py :: int

record qpointf =
  fx :: real
  fy :: real

record qsize =
  wd :: int
  ht :: int

text \<open>\<open>QRect\<close> stores its two corner pixels; \<open>right()\<close> and \<open>bottom()\<close> are the
  coordinates of the last column and row, so \<open>width() = x2 - x1 + 1\<close>.\<close>

record qrect =
  x1 :: int
  y1 :: int
  x2 :: int
  y2 :: int

definition QPoint :: "int \<Rightarrow> int \<Rightarrow> qpoint" where
  "QPoint x y = \<lparr>px = x, py = y\<rparr>"

definition QPointF :: "real \<Rightarrow> real \<Rightarrow> qpointf" where
  "QPointF x y = \<lparr>fx = x, fy = y\<rparr>"

definition QSize :: "int \<Rightarrow> int \<Rightarrow> qsize" where
  "QSize w h = \<lparr>wd = w, ht = h\<rparr>"

definition QRect :: "int \<Rightarrow> int \<Rightarrow> int \<Rightarrow> int \<Rightarrow> qrect" where
  "QRect x y w h = \<lparr>x1 = x, y1 = y, x2 = x + w - 1, y2 = y + h - 1\<rparr>"

definition QRectPS :: "qpoint \<Rightarrow> qsize \<Rightarrow> qrect" where
  "QRectPS p s = QRect (px p) (py p) (wd s) (ht s)"

definition toPointF :: "qpoint \<Rightarrow> qpointf" where
  "toPointF p = QPointF (real_of_int (px p)) (real_of_int (py p))"

definition toPoint :: "qpointf \<Rightarrow> qpoint" where
  "toPoint p = QPoint (qRound (fx p)) (qRound (fy p))"

definition pointSub :: "qpoint \<Rightarrow> qpoint \<Rightarrow> qpoint" where
  "pointSub a b = QPoint (px a - px b) (py a - py b)"

definition pointNeg :: "qpoint \<Rightarrow> qpoint" where
  "pointNeg a = QPoint (- px a) (- py a)"

definition pointMul :: "qpoint \<Rightarrow> real \<Rightarrow> qpoint" where
  "pointMul p c = QPoint (qRound (real_of_int (px p) * c)) (qRound (real_of_int (py p) * c))"

definition pointfAdd :: "qpointf \<Rightarrow> qpointf \<Rightarrow> qpointf" where
  "pointfAdd a b = QPointF (fx a + fx b) (fy a + fy b)"

definition pointfSub :: "qpointf \<Rightarrow> qpointf \<Rightarrow> qpointf" where
  "pointfSub a b = QPointF (fx a - fx b) (fy a - fy b)"

definition pointfMul :: "qpointf \<Rightarrow> real \<Rightarrow> qpointf" where
  "pointfMul p c = QPointF (fx p * c) (fy p * c)"

definition sizeMul :: "qsize \<Rightarrow> real \<Rightarrow> qsize" where
  "sizeMul s c = QSize (qRound (real_of_int (wd s) * c)) (qRound (real_of_int (ht s) * c))"

definition sizeDiv :: "qsize \<Rightarrow> real \<Rightarrow> qsize" where
  "sizeDiv s c = QSize (qRound (real_of_int (wd s) / c)) (qRound (real_of_int (ht s) / c))"

definition sizeIsEmpty :: "qsize \<Rightarrow> bool" where
  "sizeIsEmpty s = (wd s < 1 \<or> ht s < 1)"

definition left :: "qrect \<Rightarrow> int" where "left r = x1 r"
definition top :: "qrect \<Rightarrow> int" where "top r = y1 r"
definition right :: "qrect \<Rightarrow> int" where "right r = x2 r"
definition bottom :: "qrect \<Rightarrow> int" where "bottom r = y2 r"
definition width :: "qrect \<Rightarrow> int" where "width r = x2 r - x1 r + 1"
definition height :: "qrect \<Rightarrow> int" where "height r = y2 r - y1 r + 1"

definition topLeft :: "qrect \<Rightarrow> qpoint" where "topLeft r = QPoint (x1 r) (y1 r)"
definition topRight :: "qrect \<Rightarrow> qpoint" where "topRight r = QPoint (x2 r) (y1 r)"
definition bottomLeft :: "qrect \<Rightarrow> qpoint" where "bottomLeft r = QPoint (x1 r) (y2 r)"
definition bottomRight :: "qrect \<Rightarrow> qpoint" where "bottomRight r = QPoint (x2 r) (y2 r)"
definition rsize :: "qrect \<Rightarrow> qsize" where "rsize r = QSize (width r) (height r)"

definition isNull :: "qrect \<Rightarrow> bool" where
  "isNull r = (x2 r = x1 r - 1 \<and> y2 r = y1 r - 1)"

definition isEmpty :: "qrect \<Rightarrow> bool" where
  "isEmpty r = (x1 r > x2 r \<or> y1 r > y2 r)"

definition moveTo :: "qrect \<Rightarrow> qpoint \<Rightarrow> qrect" where
  "moveTo r p = \<lparr>x1 = px p, y1 = py p, x2 = x2 r + (px p - x1 r), y2 = y2 r + (py p - y1 r)\<rparr>"

definition moveLeft :: "qrect \<Rightarrow> int \<Rightarrow> qrect" where
  "moveLeft r pos = r\<lparr>x1 := pos, x2 := x2 r + (pos - x1 r)\<rparr>"

definition moveTop :: "qrect \<Rightarrow> int \<Rightarrow> qrect" where
  "moveTop r pos = r\<lparr>y1 := pos, y2 := y2 r + (pos - y1 r)\<rparr>"

definition moveRight :: "qrect \<Rightarrow> int \<Rightarrow> qrect" where
  "moveRight r pos = r\<lparr>x1 := x1 r + (pos - x2 r), x2 := pos\<rparr>"

definition moveBottom :: "qrect \<Rightarrow> int \<Rightarrow> qrect" where
  "moveBottom r pos = r\<lparr>y1 := y1 r + (pos - y2 r), y2 := pos\<rparr>"

definition setRight :: "qrect \<Rightarrow> int \<Rightarrow> qrect" where
  "setRight r pos = r\<lparr>x2 := pos\<rparr>"

definition setBottom :: "qrect \<Rightarrow> int \<Rightarrow> qrect" where
  "setBottom r pos = r\<lparr>y2 := pos\<rparr>"

definition setWidth :: "qrect \<Rightarrow> int \<Rightarrow> qrect" where
  "setWidth r w = r\<lparr>x2 := x1 r + w - 1\<rparr>"

definition setHeight :: "qrect \<Rightarrow> int \<Rightarrow> qrect" where
  "setHeight r h = r\<lparr>y2 := y1 r + h - 1\<rparr>"

definition translated :: "qrect \<Rightarrow> qpoint \<Rightarrow> qrect" where
  "translated r p = \<lparr>x1 = x1 r + px p, y1 = y1 r + py p, x2 = x2 r + px p, y2 = y2 r + py p\<rparr>"

text \<open>\<open>QRect::normalized()\<close>: the corners are swapped on an axis whose extent is negative.\<close>

definition normalized :: "qrect \<Rightarrow> qrect" where
  "normalized r =
     \<lparr>x1 = (if x2 r < x1 r - 1 then x2 r else x1 r),
      y1 = (if y2 r < y1 r - 1 then y2 r else y1 r),
      x2 = (if x2 r < x1 r - 1 then x1 r else x2 r),
      y2 = (if y2 r < y1 r - 1 then y1 r else y2 r)\<rparr>"

text \<open>The span of a rectangle on one axis, as \<open>contains\<close>, \<open>intersects\<close>, \<open>united\<close> and
  \<open>intersected\<close> compute it before comparing (\<open>l1\<close>, \<open>r1\<close> in the toolkit's code).\<close>

definition spanLo :: "int \<Rightarrow> int \<Rightarrow> int" where
  "spanLo a b = (if b - a + 1 < 0 then b else a)"

definition spanHi :: "int \<Rightarrow> int \<Rightarrow> int" where
  "spanHi a b = (if b - a + 1 < 0 then a else b)"

definition containsPoint :: "qrect \<Rightarrow> qpoint \<Rightarrow> bool" where
  "containsPoint r p =
     (let l = (if x2 r < x1 r - 1 then x2 r else x1 r);
          rr = (if x2 r < x1 r - 1 then x1 r else x2 r);
          t = (if y2 r < y1 r - 1 then y2 r else y1 r);
          b = (if y2 r < y1 r - 1 then y1 r else y2 r)
      in \<not> (px p < l \<or> px p > rr) \<and> \<not> (py p < t \<or> py p > b))"

definition containsRect :: "qrect \<Rightarrow> qrect \<Rightarrow> bool" where
  "containsRect a b =
     (if isNull a \<or> isNull b then False
      else \<not> (spanLo (x1 b) (x2 b) < spanLo (x1 a) (x2 a) \<or> spanHi (x1 b) (x2 b) > spanHi (x1 a) (x2 a))
         \<and> \<not> (spanLo (y1 b) (y2 b) < spanLo (y1 a) (y2 a) \<or> spanHi (y1 b) (y2 b) > spanHi (y1 a) (y2 a)))"

definition intersects :: "qrect \<Rightarrow> qrect \<Rightarrow> bool" where
  "intersects a b =
     (if isNull a \<or> isNull b then False
      else \<not> (spanLo (x1 a) (x2 a) > spanHi (x1 b) (x2 b) \<or> spanLo (x1 b) (x2 b) > spanHi (x1 a) (x2 a))
         \<and> \<not> (spanLo (y1 a) (y2 a) > spanHi (y1 b) (y2 b) \<or> spanLo (y1 b) (y2 b) > spanHi (y1 a) (y2 a)))"

definition nullRect :: qrect where
  "nullRect = \<lparr>x1 = 0, y1 = 0, x2 = - 1, y2 = - 1\<rparr>"

definition intersected :: "qrect \<Rightarrow> qrect \<Rightarrow> qrect" where
  "intersected a b =
     (if isNull a \<or> isNull b then nullRect
      else if spanLo (x1 a) (x2 a) > spanHi (x1 b) (x2 b) \<or> spanLo (x1 b) (x2 b) > spanHi (x1 a) (x2 a)
        then nullRect
      else if spanLo (y1 a) (y2 a) > spanHi (y1 b) (y2 b) \<or> spanLo (y1 b) (y2 b) > spanHi (y1 a) (y2 a)
        then nullRect
      else \<lparr>x1 = max (spanLo (x1 a) (x2 a)) (spanLo (x1 b) (x2 b)),
            y1 = max (spanLo (y1 a) (y2 a)) (spanLo (y1 b) (y2 b)),
            x2 = min (spanHi (x1 a) (x2 a)) (spanHi (x1 b) (x2 b)),
            y2 = min (spanHi (y1 a) (y2 a)) (spanHi (y1 b) (y2 b))\<rparr>)"

definition united :: "qrect \<Rightarrow> qrect \<Rightarrow> qrect" where
  "united a b =
     (if isNull a then b
      else if isNull b then a
      else \<lparr>x1 = min (spanLo (x1 a) (x2 a)) (spanLo (x1 b) (x2 b)),
            y1 = min (spanLo (y1 a) (y2 a)) (spanLo (y1 b) (y2 b)),
            x2 = max (spanHi (x1 a) (x2 a)) (spanHi (x1 b) (x2 b)),
            y2 = max (spanHi (y1 a) (y2 a)) (spanHi (y1 b) (y2 b))\<rparr>)"

text \<open>\<open>qFuzzyCompare(double, double)\<close>.\<close>

definition qFuzzyCompare :: "real \<Rightarrow> real \<Rightarrow> bool" where
  "qFuzzyCompare p1 p2 = (\<bar>p1 - p2\<bar> * 1000000000000 \<le> min \<bar>p1\<bar> \<bar>p2\<bar>)"

section \<open>QuickEditor: the location classifier\<close>

datatype MouseState =
  NoneState | Inside | Outside | TopLeft | Top | TopRight | Right | BottomRight | Bottom
  | BottomLeft | Left

text \<open>\<open>mHandlePositions\<close> is an array of eight points; \<open>h0\<close> .. \<open>h7\<close> are its entries
  0 .. 7 (top-left, top-right, bottom-right, bottom-left, top-centre, right-centre,
  bottom-centre, left-centre).\<close>

record handles =
  h0 :: qpointf
  h1 :: qpointf
  h2 :: qpointf
  h3 :: qpointf
  h4 :: qpointf
  h5 :: qpointf
  h6 :: qpointf
  h7 :: qpointf

definition handleRadiusMouse :: int where "handleRadiusMouse = 9"
definition handleRadiusTouch :: int where "handleRadiusTouch = 12"
definition increaseDragAreaFactor :: real where "increaseDragAreaFactor = 2"
definition minSpacingBetweenHandles :: int where "minSpacingBetweenHandles = 20"
definition borderDragAreaSize :: int where "borderDragAreaSize = 10"
definition magnifierLargeStep :: int where "magnifierLargeStep = 15"

definition isPointInsideCircle :: "qpointf \<Rightarrow> real \<Rightarrow> qpointf \<Rightarrow> bool" where
  "isPointInsideCircle circleCenter radius point =
     ((fx point - fx circleCenter) ^ 2 + (fy point - fy circleCenter) ^ 2 \<le> radius ^ 2)"

definition inRange :: "real \<Rightarrow> real \<Rightarrow> real \<Rightarrow> bool" where
  "inRange low high v = (v \<ge> low \<and> v \<le> high)"

definition withinThreshold :: "real \<Rightarrow> real \<Rightarrow> bool" where
  "withinThreshold offset threshold = (\<bar>offset\<bar> \<le> threshold)"

text \<open>The part of \<open>QuickEditor::mouseLocation\<close> after the eight handle tests. The
  border strips are tested inside the size guard; \<open>None\<close> stands for falling out of the
  guarded block without a \<open>return\<close>.\<close>

definition borderStrips :: "qrect \<Rightarrow> qpointf \<Rightarrow> MouseState option" where
  "borderStrips sel pos =
     (let sx = real_of_int (x1 sel); sy = real_of_int (y1 sel);
          sw = real_of_int (width sel); sh = real_of_int (height sel);
          bd = real_of_int borderDragAreaSize
      in
      if inRange sx (sx + sw) (fx pos) \<and> withinThreshold (fy pos - sy) bd then Some Top
      else if inRange sx (sx + sw) (fx pos) \<and> withinThreshold (fy pos - sy - sh) bd then Some Bottom
      else if inRange sy (sy + sh) (fy pos) \<and> withinThreshold (fx pos - sx) bd then Some Left
      else if inRange sy (sy + sh) (fy pos) \<and> withinThreshold (fx pos - sx - sw) bd then Some Right
      else None)"

definition borderLocation :: "qrect \<Rightarrow> qpointf \<Rightarrow> MouseState" where
  "borderLocation sel pos =
     (case (if width sel \<ge> 100 \<and> height sel \<ge> 100 then borderStrips sel pos else None) of
        Some m \<Rightarrow> m
      | None \<Rightarrow> if containsPoint sel (toPoint pos) then Inside else Outside)"

definition mouseLocation :: "handles \<Rightarrow> int \<Rightarrow> qrect \<Rightarrow> qpointf \<Rightarrow> MouseState" where
  "mouseLocation hp mHandleRadius sel pos =
     (let r = real_of_int mHandleRadius * increaseDragAreaFactor in
      if isPointInsideCircle (h0 hp) r pos then TopLeft
      else if isPointInsideCircle (h1 hp) r pos then TopRight
      else if isPointInsideCircle (h2 hp) r pos then BottomRight
      else if isPointInsideCircle (h3 hp) r pos then BottomLeft
      else if isPointInsideCircle (h4 hp) r pos then Top
      else if isPointInsideCircle (h5 hp) r pos then Right
      else if isPointInsideCircle (h6 hp) r pos then Bottom
      else if isPointInsideCircle (h7 hp) r pos then Left
      else borderLocation sel pos)"

section \<open>Captured images and painted pixmaps\<close>

text \<open>
  Pixel buffers are kept symbolic: a captured screen image is \<open>Captured k\<close>, and the
  toolkit calls that derive one buffer from another are constructors, so that the value
  emitted with \<open>grabDone\<close> records exactly which calls produced it.
\<close>

datatype pixels = Blank | Captured nat | Copied pixels qrect

record qimage =
  isize :: qsize
  idpr :: real
  idata :: pixels

definition nullImage :: qimage where
  "nullImage = \<lparr>isize = QSize 0 0, idpr = 1, idata = Blank\<rparr>"

text \<open>\<open>QImage::copy(rect)\<close>: a null rectangle copies the whole image, a rectangle without
  area gives a null image, any other rectangle gives the sub-image of that size (the
  device-pixel ratio is kept).\<close>

definition imageCopy :: "qimage \<Rightarrow> qrect \<Rightarrow> qimage" where
  "imageCopy img r =
     (if isNull r then img
      else if width r \<le> 0 \<or> height r \<le> 0 then nullImage
      else \<lparr>isize = rsize r, idpr = idpr img, idata = Copied (idata img) r\<rparr>)"

text \<open>Painter calls on a target buffer, in the order they are issued.\<close>

datatype paintOp =
  DrawImage qpoint qimage
  | DrawImageRect qrect qimage
  | FillRectBrush qrect qimage real

record qpixmap =
  psize :: qsize
  pdpr :: real
  pops :: "paintOp list"

datatype grab = GrabImage qimage | GrabPixmap qpixmap | GrabPixmapCopy qpixmap qrect

datatype signal = grabDone grab | grabCancelled

record qscreen =
  sid :: nat
  geometry :: qrect
  screenDevicePixelRatio :: real

section \<open>QuickEditor: state and event handlers\<close>

record QuickEditor =
  mSelection :: qrect
  mStartPos :: qpointf
  mInitialTopLeft :: qpointf
  mMousePos :: qpointf
  mMouseDragState :: MouseState
  mScreensRect :: qrect
  devicePixelRatio :: real
  devicePixelRatioI :: real
  mHandlePositions :: handles
  mHandleRadius :: int
  mMagnifierAllowed :: bool
  mToggleMagnifier :: bool
  mDisableArrowKeys :: bool
  mReleaseToCapture :: bool
  mImages :: "(qscreen \<times> qimage) list"
  mScreenToDpr :: "(qscreen \<times> real) list"
  mPixmap :: qpixmap
  widgetSize :: qsize
  cropRegion :: "int list"
  emitted :: "signal list"

text \<open>What the editor reads from the platform: \<open>KWindowSystem::isPlatformX11()\<close> and
  \<open>QGuiApplication::screens()\<close>.\<close>

record platform =
  isPlatformX11 :: bool
  screens :: "qscreen list"

text \<open>\<open>mImages.value(screen)\<close>: the image stored for the key, a null image without one.\<close>

fun imagesValue :: "(qscreen \<times> qimage) list \<Rightarrow> qscreen \<Rightarrow> qimage" where
  "imagesValue [] s = nullImage"
| "imagesValue ((k, img) # rest) s = (if sid k = sid s then img else imagesValue rest s)"

subsection \<open>Handle positions\<close>

text \<open>\<open>QuickEditor::drawDragHandles\<close>, up to the painting itself; \<open>penWidth\<close> is the
  painter's pen width.\<close>

definition drawDragHandles :: "int \<Rightarrow> QuickEditor \<Rightarrow> QuickEditor" where
  "drawDragHandles penWidth st =
     (let sel = mSelection st;
          l = real_of_int (x1 sel);
          centerX = l + real_of_int (width sel) / 2;
          r = l + real_of_int (width sel);
          t = real_of_int (y1 sel);
          centerY = t + real_of_int (height sel) / 2;
          b = t + real_of_int (height sel);
          rad = real_of_int (mHandleRadius st);
          minDragHandleSpace = real_of_int (4 * mHandleRadius st + 2 * minSpacingBetweenHandles);
          minEdgeLength = real_of_int (min (width sel) (height sel));
          small = (minEdgeLength < minDragHandleSpace);
          tsr = translated (mScreensRect st) (pointNeg (topLeft (mScreensRect st)));
          offset = (if small then (minDragHandleSpace - minEdgeLength) / 2 else 0);
          offsetTop0 = t - real_of_int (top tsr) - rad;
          offsetTop = (if small then 0 else if offsetTop0 \<ge> 0 then 0 else offsetTop0);
          offsetRight0 = real_of_int (right tsr) - r - rad + real_of_int penWidth;
          offsetRight = (if small then 0 else if offsetRight0 \<ge> 0 then 0 else offsetRight0);
          offsetBottom0 = real_of_int (bottom tsr) - b - rad + real_of_int penWidth;
          offsetBottom = (if small then 0 else if offsetBottom0 \<ge> 0 then 0 else offsetBottom0);
          offsetLeft0 = l - real_of_int (left tsr) - rad;
          offsetLeft = (if small then 0 else if offsetLeft0 \<ge> 0 then 0 else offsetLeft0)
      in st\<lparr>mHandlePositions :=
           \<lparr>h0 = QPointF (l - offset - offsetLeft) (t - offset - offsetTop),
            h1 = QPointF (r + offset + offsetRight) (t - offset - offsetTop),
            h2 = QPointF (r + offset + offsetRight) (b + offset + offsetBottom),
            h3 = QPointF (l - offset - offsetLeft) (b + offset + offsetBottom),
            h4 = QPointF centerX (t - offset - offsetTop),
            h5 = QPointF (r + offset + offsetRight) centerY,
            h6 = QPointF centerX (b + offset + offsetBottom),
            h7 = QPointF (l - offset - offsetLeft) centerY\<rparr>\<rparr>)"

text \<open>\<open>QuickEditor::paintEvent\<close>, as far as it changes the editor: the handles are placed
  when there is a selection and no drag is in progress.\<close>

definition paintEvent :: "int \<Rightarrow> QuickEditor \<Rightarrow> QuickEditor" where
  "paintEvent penWidth st =
     (if \<not> sizeIsEmpty (rsize (mSelection st)) \<or> mMouseDragState st \<noteq> NoneState then
        (if mMouseDragState st = NoneState then drawDragHandles penWidth st else st)
      else st)"

subsection \<open>Committing the selection\<close>

text \<open>The loop of the Wayland branch of \<open>QuickEditor::acceptSelection\<close> over
  \<open>mScreenToDpr\<close>. \<open>Inl\<close> is the short path (a \<open>grabDone\<close> from inside the loop, then
  \<open>return\<close>); \<open>Inr\<close> carries the painter calls made on \<open>output\<close>.\<close>

fun cropLoop ::
  "qrect \<Rightarrow> real \<Rightarrow> (qscreen \<times> qimage) list \<Rightarrow> (qscreen \<times> real) list \<Rightarrow> paintOp list
     \<Rightarrow> qimage + paintOp list" where
  "cropLoop sel maxDpr imgs [] ops = Inr ops"
| "cropLoop sel maxDpr imgs ((screen, dpr) # rest) ops =
     (let screenRect = geometry screen in
      if intersects sel screenRect then
        (let pos = topLeft screenRect;
             intersected0 = intersected screenRect sel;
             pixelOnScreenIntersected =
               setHeight
                 (setWidth
                    (moveTo nullRect (pointMul (pointSub (topLeft intersected0) pos) dpr))
                    (cint (real_of_int (width intersected0) * dpr)))
                 (cint (real_of_int (height intersected0) * dpr));
             screenOutput = imageCopy (imagesValue imgs screen) pixelOnScreenIntersected
         in
         if rsize intersected0 = rsize sel then Inl screenOutput
         else
           (let dprI = maxDpr / dpr;
                moved = moveTo intersected0
                          (pointMul (pointSub (topLeft intersected0) (topLeft sel)) maxDpr);
                target = QRectPS (topLeft moved) (sizeMul (rsize moved) maxDpr)
            in cropLoop sel maxDpr imgs rest (ops @ [FillRectBrush target screenOutput dprI])))
      else cropLoop sel maxDpr imgs rest ops)"

text \<open>The loop computing \<open>maxDpr\<close> over \<open>QGuiApplication::screens()\<close>.\<close>

fun maxDprLoop :: "real \<Rightarrow> qscreen list \<Rightarrow> real" where
  "maxDprLoop maxDpr [] = maxDpr"
| "maxDprLoop maxDpr (screen # rest) =
     maxDprLoop (if screenDevicePixelRatio screen > maxDpr then screenDevicePixelRatio screen
                 else maxDpr) rest"

definition acceptSelection :: "platform \<Rightarrow> QuickEditor \<Rightarrow> QuickEditor" where
  "acceptSelection pf st =
     (if \<not> isEmpty (mSelection st) then
        (let sel = mSelection st;
             dpr = devicePixelRatio st;
             scaledCropRegion =
               QRect (qRound (real_of_int (x1 sel) * dpr)) (qRound (real_of_int (y1 sel) * dpr))
                     (qRound (real_of_int (width sel) * dpr)) (qRound (real_of_int (height sel) * dpr));
             st1 = st\<lparr>cropRegion := [x1 scaledCropRegion, y1 scaledCropRegion,
                                     width scaledCropRegion, height scaledCropRegion]\<rparr>
         in
         if isPlatformX11 pf then
           st1\<lparr>emitted := emitted st1 @ [grabDone (GrabPixmapCopy (mPixmap st1) scaledCropRegion)]\<rparr>
         else
           (let maxDpr = maxDprLoop 1 (screens pf) in
            case cropLoop sel maxDpr (mImages st1) (mScreenToDpr st1) [] of
              Inl screenOutput \<Rightarrow>
                st1\<lparr>emitted := emitted st1 @ [grabDone (GrabImage screenOutput)]\<rparr>
            | Inr ops \<Rightarrow>
                st1\<lparr>emitted := emitted st1 @
                  [grabDone (GrabPixmap \<lparr>psize = sizeMul (rsize sel) maxDpr, pdpr = 1, pops = ops\<rparr>)]\<rparr>))
      else st)"

subsection \<open>Pointer events\<close>

datatype MouseButton = LeftButton | RightButton | OtherButton

text \<open>\<open>QRect::setRect\<close> takes \<open>int\<close> arguments; the handlers pass \<open>qreal\<close> expressions,
  which the language truncates.\<close>

definition setRectF :: "real \<Rightarrow> real \<Rightarrow> real \<Rightarrow> real \<Rightarrow> qrect" where
  "setRectF x y w h = QRect (cint x) (cint y) (cint w) (cint h)"

text \<open>\<open>QuickEditor::mousePressEvent\<close>; \<open>synthesized\<close> is
  \<open>event->source() != Qt::MouseEventNotSynthesized\<close>.\<close>

definition mousePressEvent :: "qpoint \<Rightarrow> MouseButton \<Rightarrow> bool \<Rightarrow> QuickEditor \<Rightarrow> QuickEditor" where
  "mousePressEvent pos button synthesized st =
     (let st1 = st\<lparr>mHandleRadius := (if \<not> synthesized then handleRadiusMouse else handleRadiusTouch)\<rparr>
      in
      if button = LeftButton then
        (let st2 = st1\<lparr>mMousePos := toPointF pos, mMagnifierAllowed := True\<rparr>;
             st3 = st2\<lparr>mMouseDragState :=
                         mouseLocation (mHandlePositions st2) (mHandleRadius st2) (mSelection st2)
                           (mMousePos st2),
                       mDisableArrowKeys := True\<rparr>
         in
         case mMouseDragState st3 of
           Outside \<Rightarrow> st3\<lparr>mStartPos := mMousePos st3\<rparr>
         | Inside \<Rightarrow> st3\<lparr>mStartPos := mMousePos st3, mMagnifierAllowed := False,
                          mInitialTopLeft := toPointF (topLeft (mSelection st3))\<rparr>
         | Top \<Rightarrow> st3\<lparr>mStartPos := toPointF (bottomRight (mSelection st3))\<rparr>
         | Left \<Rightarrow> st3\<lparr>mStartPos := toPointF (bottomRight (mSelection st3))\<rparr>
         | TopLeft \<Rightarrow> st3\<lparr>mStartPos := toPointF (bottomRight (mSelection st3))\<rparr>
         | Bottom \<Rightarrow> st3\<lparr>mStartPos := toPointF (topLeft (mSelection st3))\<rparr>
         | Right \<Rightarrow> st3\<lparr>mStartPos := toPointF (topLeft (mSelection st3))\<rparr>
         | BottomRight \<Rightarrow> st3\<lparr>mStartPos := toPointF (topLeft (mSelection st3))\<rparr>
         | TopRight \<Rightarrow> st3\<lparr>mStartPos := toPointF (bottomLeft (mSelection st3))\<rparr>
         | BottomLeft \<Rightarrow> st3\<lparr>mStartPos := toPointF (topRight (mSelection st3))\<rparr>
         | NoneState \<Rightarrow> st3)
      else st1)"

text \<open>The \<open>Inside\<close> case of \<open>QuickEditor::mouseMoveEvent\<close>: the selection follows the
  pointer and is kept inside the screens' bounding rectangle.\<close>

definition moveInside :: "QuickEditor \<Rightarrow> qrect" where
  "moveInside st =
     (let newTopLeft =
            toPoint (pointfMul (pointfAdd (pointfSub (mMousePos st) (mStartPos st)) (mInitialTopLeft st))
                               (devicePixelRatio st));
          newRect = QRectPS newTopLeft (sizeMul (rsize (mSelection st)) (devicePixelRatio st));
          translatedScreensRect =
            translated (mScreensRect st) (pointNeg (topLeft (mScreensRect st)));
          newTopLeft2 =
            (if \<not> containsRect translatedScreensRect newRect then
               QPoint (min (right translatedScreensRect - width newRect)
                           (max (px newTopLeft) (left translatedScreensRect)))
                      (min (bottom translatedScreensRect - height newRect)
                           (max (py newTopLeft) (top translatedScreensRect)))
             else newTopLeft)
      in moveTo (mSelection st) (pointMul newTopLeft2 (devicePixelRatioI st)))"

definition mouseMoveEvent :: "qpoint \<Rightarrow> QuickEditor \<Rightarrow> QuickEditor" where
  "mouseMoveEvent pos st =
     (let st1 = st\<lparr>mMousePos := toPointF pos, mMagnifierAllowed := True\<rparr>;
          mx = fx (mMousePos st1); my = fy (mMousePos st1);
          sx = fx (mStartPos st1); sy = fy (mStartPos st1);
          afterX = (mx \<ge> sx); afterY = (my \<ge> sy);
          dI = devicePixelRatioI st1;
          sel = mSelection st1
      in
      case mMouseDragState st1 of
        NoneState \<Rightarrow> st1\<lparr>mMagnifierAllowed := False\<rparr>
      | TopLeft \<Rightarrow>
          st1\<lparr>mSelection := setRectF (if afterX then sx else mx) (if afterY then sy else my)
                 (\<bar>mx - sx\<bar> + (if afterX then dI else 0)) (\<bar>my - sy\<bar> + (if afterY then dI else 0))\<rparr>
      | TopRight \<Rightarrow>
          st1\<lparr>mSelection := setRectF (if afterX then sx else mx) (if afterY then sy else my)
                 (\<bar>mx - sx\<bar> + (if afterX then dI else 0)) (\<bar>my - sy\<bar> + (if afterY then dI else 0))\<rparr>
      | BottomRight \<Rightarrow>
          st1\<lparr>mSelection := setRectF (if afterX then sx else mx) (if afterY then sy else my)
                 (\<bar>mx - sx\<bar> + (if afterX then dI else 0)) (\<bar>my - sy\<bar> + (if afterY then dI else 0))\<rparr>
      | BottomLeft \<Rightarrow>
          st1\<lparr>mSelection := setRectF (if afterX then sx else mx) (if afterY then sy else my)
                 (\<bar>mx - sx\<bar> + (if afterX then dI else 0)) (\<bar>my - sy\<bar> + (if afterY then dI else 0))\<rparr>
      | Outside \<Rightarrow>
          st1\<lparr>mSelection := setRectF (min mx sx) (min my sy) (\<bar>mx - sx\<bar> + dI) (\<bar>my - sy\<bar> + dI)\<rparr>
      | Top \<Rightarrow>
          st1\<lparr>mSelection := setRectF (real_of_int (x1 sel)) (if afterY then sy else my)
                 (real_of_int (width sel)) (\<bar>my - sy\<bar> + (if afterY then dI else 0))\<rparr>
      | Bottom \<Rightarrow>
          st1\<lparr>mSelection := setRectF (real_of_int (x1 sel)) (if afterY then sy else my)
                 (real_of_int (width sel)) (\<bar>my - sy\<bar> + (if afterY then dI else 0))\<rparr>
      | Right \<Rightarrow>
          st1\<lparr>mSelection := setRectF (if afterX then sx else mx) (real_of_int (y1 sel))
                 (\<bar>mx - sx\<bar> + (if afterX then dI else 0)) (real_of_int (height sel))\<rparr>
      | Left \<Rightarrow>
          st1\<lparr>mSelection := setRectF (if afterX then sx else mx) (real_of_int (y1 sel))
                 (\<bar>mx - sx\<bar> + (if afterX then dI else 0)) (real_of_int (height sel))\<rparr>
      | Inside \<Rightarrow>
          (let st2 = st1\<lparr>mMagnifierAllowed := False\<rparr>
           in st2\<lparr>mSelection := moveInside st2\<rparr>))"

definition mouseReleaseEvent :: "platform \<Rightarrow> MouseButton \<Rightarrow> QuickEditor \<Rightarrow> QuickEditor" where
  "mouseReleaseEvent pf button st =
     (case button of
        LeftButton \<Rightarrow>
          (if mMouseDragState st = Outside \<and> mReleaseToCapture st then acceptSelection pf st
           else st\<lparr>mDisableArrowKeys := False, mMouseDragState := NoneState\<rparr>)
      | RightButton \<Rightarrow>
          st\<lparr>mSelection := setHeight (setWidth (mSelection st) 0) 0, mMouseDragState := NoneState\<rparr>
      | OtherButton \<Rightarrow> st\<lparr>mMouseDragState := NoneState\<rparr>)"

definition mouseDoubleClickEvent :: "platform \<Rightarrow> qpoint \<Rightarrow> MouseButton \<Rightarrow> QuickEditor \<Rightarrow> QuickEditor" where
  "mouseDoubleClickEvent pf pos button st =
     (if button = LeftButton \<and> containsPoint (mSelection st) pos then acceptSelection pf st else st)"

subsection \<open>Keyboard events\<close>

datatype Key = Key_Escape | Key_Return | Key_Enter | Key_Up | Key_Left | Key_Down | Key_Right
  | Key_Other

text \<open>The four arrow-key cases of \<open>QuickEditor::keyPressEvent\<close>, entered when
  \<open>mDisableArrowKeys\<close> is off. \<open>width()\<close> and \<open>height()\<close> of the widget are \<open>widgetSize\<close>.\<close>

definition arrowUp :: "bool \<Rightarrow> bool \<Rightarrow> QuickEditor \<Rightarrow> qrect" where
  "arrowUp shiftPressed altPressed st =
     (let sel = mSelection st; dpr = devicePixelRatio st; dI = devicePixelRatioI st;
          step = real_of_int magnifierLargeStep
      in
      if altPressed then
        normalized
          (if shiftPressed then
             (let newBottom = bottom sel - 1 in setBottom sel (if newBottom < 0 then 0 else newBottom))
           else
             (let newScaledBottom = real_of_int (bottom sel) * dpr - step
              in setBottom sel (qRound (dI * (if newScaledBottom < 0 then 0 else newScaledBottom)))))
      else
        (if shiftPressed then
           (let newTop = top sel - 1 in moveTop sel (if newTop < 0 then 0 else newTop))
         else
           (let newScaledTop = real_of_int (top sel) * dpr - step
            in moveTop sel (qRound (dI * (if newScaledTop < 0 then 0 else newScaledTop))))))"

definition arrowLeft :: "bool \<Rightarrow> bool \<Rightarrow> QuickEditor \<Rightarrow> qrect" where
  "arrowLeft shiftPressed altPressed st =
     (let sel = mSelection st; dpr = devicePixelRatio st; dI = devicePixelRatioI st;
          step = real_of_int magnifierLargeStep
      in
      if altPressed then
        normalized
          (if shiftPressed then
             (let newRight = right sel - 1 in setRight sel (if newRight < 0 then 0 else newRight))
           else
             (let newScaledRight = real_of_int (right sel) * dpr - step
              in setRight sel (qRound (dI * (if newScaledRight < 0 then 0 else newScaledRight)))))
      else
        (if shiftPressed then
           (let newLeft = left sel - 1 in moveLeft sel (if newLeft < 0 then 0 else newLeft))
         else
           (let newScaledLeft = real_of_int (left sel) * dpr - step
            in moveLeft sel (qRound (dI * (if newScaledLeft < 0 then 0 else newScaledLeft))))))"

definition arrowDown :: "bool \<Rightarrow> bool \<Rightarrow> QuickEditor \<Rightarrow> qrect" where
  "arrowDown shiftPressed altPressed st =
     (let sel = mSelection st; dpr = devicePixelRatio st; dI = devicePixelRatioI st;
          newBottom = bottom sel + 1;
          newScaledBottom = real_of_int (bottom sel) * dpr + real_of_int magnifierLargeStep;
          scaledHeight = real_of_int (ht (widgetSize st)) * dpr
      in
      if altPressed then
        normalized
          (if shiftPressed then setBottom sel (min (ht (widgetSize st)) newBottom)
           else setBottom sel (qRound (dI * min scaledHeight newScaledBottom)))
      else
        (if shiftPressed then moveBottom sel (min (ht (widgetSize st)) newBottom)
         else moveBottom sel (qRound (dI * min scaledHeight newScaledBottom))))"

definition arrowRight :: "bool \<Rightarrow> bool \<Rightarrow> QuickEditor \<Rightarrow> qrect" where
  "arrowRight shiftPressed altPressed st =
     (let sel = mSelection st; dpr = devicePixelRatio st; dI = devicePixelRatioI st;
          newRight = right sel + 1;
          newScaledRight = real_of_int (right sel) * dpr + real_of_int magnifierLargeStep;
          scaledWidth = real_of_int (wd (widgetSize st)) * dpr
      in
      if altPressed then
        normalized
          (if shiftPressed then setRight sel (min (wd (widgetSize st)) newRight)
           else setRight sel (qRound (dI * min scaledWidth newScaledRight)))
      else
        (if shiftPressed then moveRight sel (min (wd (widgetSize st)) newRight)
         else moveRight sel (qRound (dI * min scaledWidth newScaledRight))))"

definition keyPressEvent :: "platform \<Rightarrow> Key \<Rightarrow> bool \<Rightarrow> bool \<Rightarrow> QuickEditor \<Rightarrow> QuickEditor" where
  "keyPressEvent pf key shiftPressed altPressed st =
     (let st1 = (if shiftPressed then st\<lparr>mToggleMagnifier := True\<rparr> else st) in
      case key of
        Key_Escape \<Rightarrow> st1\<lparr>emitted := emitted st1 @ [grabCancelled]\<rparr>
      | Key_Return \<Rightarrow> acceptSelection pf st1
      | Key_Enter \<Rightarrow> acceptSelection pf st1
      | Key_Up \<Rightarrow>
          (if mDisableArrowKeys st1 then st1
           else st1\<lparr>mSelection := arrowUp shiftPressed altPressed st1\<rparr>)
      | Key_Left \<Rightarrow>
          (if mDisableArrowKeys st1 then st1
           else st1\<lparr>mSelection := arrowLeft shiftPressed altPressed st1\<rparr>)
      | Key_Down \<Rightarrow>
          (if mDisableArrowKeys st1 then st1
           else st1\<lparr>mSelection := arrowDown shiftPressed altPressed st1\<rparr>)
      | Key_Right \<Rightarrow>
          (if mDisableArrowKeys st1 then st1
           else st1\<lparr>mSelection := arrowRight shiftPressed altPressed st1\<rparr>)
      | Key_Other \<Rightarrow> st1)"

subsection \<open>Event sequences\<close>

datatype event =
  MousePress qpoint MouseButton bool
  | MouseMove qpoint
  | MouseRelease MouseButton
  | MouseDoubleClick qpoint MouseButton
  | KeyPress Key bool bool
  | Paint int

fun handleEvent :: "platform \<Rightarrow> QuickEditor \<Rightarrow> event \<Rightarrow> QuickEditor" where
  "handleEvent pf st (MousePress pos button synthesized) = mousePressEvent pos button synthesized st"
| "handleEvent pf st (MouseMove pos) = mouseMoveEvent pos st"
| "handleEvent pf st (MouseRelease button) = mouseReleaseEvent pf button st"
| "handleEvent pf st (MouseDoubleClick pos button) = mouseDoubleClickEvent pf pos button st"
| "handleEvent pf st (KeyPress key shiftPressed altPressed) = keyPressEvent pf key shiftPressed altPressed st"
| "handleEvent pf st (Paint penWidth) = paintEvent penWidth st"

definition handleEvents :: "platform \<Rightarrow> QuickEditor \<Rightarrow> event list \<Rightarrow> QuickEditor" where
  "handleEvents pf st evs = foldl (handleEvent pf) st evs"

subsection \<open>Building the canvas\<close>

text \<open>\<open>QuickEditor::computeCoordinatesAfterScaling\<close>. The argument map is given as the
  list of its entries in iteration order (the order of \<open>ComparableQPoint\<close> is defined
  outside the files at hand); the inner loop runs from the current entry to the end.
  \<open>translationMap.value(point)\<close> is the stored point, a default-constructed one without it.\<close>

definition mapValue :: "(qpoint \<rightharpoonup> qpoint) \<Rightarrow> qpoint \<Rightarrow> qpoint" where
  "mapValue tm k = (case tm k of Some v \<Rightarrow> v | None \<Rightarrow> QPoint 0 0)"

definition shiftEntry ::
  "qpoint \<Rightarrow> int \<Rightarrow> int \<Rightarrow> int \<Rightarrow> int \<Rightarrow> qpoint \<Rightarrow> (qpoint \<rightharpoonup> qpoint) \<Rightarrow> (qpoint \<rightharpoonup> qpoint)" where
  "shiftEntry p newWidth newHeight deltaX deltaY point translationMap =
     (let finalPoint = mapValue translationMap point;
          fp1 = (if px point \<ge> newWidth + px p - deltaX then finalPoint\<lparr>px := px finalPoint + deltaX\<rparr>
                 else finalPoint);
          fp2 = (if py point \<ge> newHeight + py p - deltaY then fp1\<lparr>py := py fp1 + deltaY\<rparr>
                 else fp1)
      in translationMap(point \<mapsto> fp2))"

fun scalingLoop ::
  "(qpoint \<times> real \<times> qsize) list \<Rightarrow> (qpoint \<rightharpoonup> qpoint) \<Rightarrow> (qpoint \<rightharpoonup> qpoint)" where
  "scalingLoop [] translationMap = translationMap"
| "scalingLoop ((p, dpr, sz) # rest) translationMap =
     scalingLoop rest
       (if \<not> qFuzzyCompare dpr 1 then
          (let newWidth = wd sz;
               newHeight = ht sz;
               deltaX = newWidth - wd sz;
               deltaY = newHeight - ht sz
           in fold (shiftEntry p newWidth newHeight deltaX deltaY) (p # map fst rest) translationMap)
        else translationMap)"

definition computeCoordinatesAfterScaling ::
  "(qpoint \<times> real \<times> qsize) list \<Rightarrow> (qpoint \<rightharpoonup> qpoint)" where
  "computeCoordinatesAfterScaling outputsRect =
     scalingLoop outputsRect (fold (\<lambda>i tm. tm(i \<mapsto> i)) (map fst outputsRect) Map.empty)"

text \<open>\<open>QuickEditor::preparePaint\<close>: the ratio of every screen is the width of its image over
  the width of its geometry, and the screens' rectangles are united.\<close>

fun preparePaintLoop :: "bool \<Rightarrow> (qscreen \<times> qimage) list \<Rightarrow> QuickEditor \<Rightarrow> QuickEditor" where
  "preparePaintLoop x11 [] st = st"
| "preparePaintLoop x11 ((screen, screenImage) # rest) st =
     (let dpr = real_of_int (wd (isize screenImage)) / real_of_int (width (geometry screen));
          virtualScreenRect =
            (if x11 then QRectPS (topLeft (geometry screen)) (isize screenImage)
             else QRectPS (topLeft (geometry screen)) (sizeDiv (isize screenImage) dpr))
      in preparePaintLoop x11 rest
           (st\<lparr>mScreenToDpr := mScreenToDpr st @ [(screen, dpr)],
               mScreensRect := united (mScreensRect st) virtualScreenRect\<rparr>))"

definition preparePaint :: "platform \<Rightarrow> QuickEditor \<Rightarrow> QuickEditor" where
  "preparePaint pf st = preparePaintLoop (isPlatformX11 pf) (mImages st) st"

section \<open>SelectionEditor\<close>

subsection \<open>Rectangles with real coordinates\<close>

text \<open>\<open>QRectF\<close> stores a corner and a size; \<open>right()\<close> is \<open>x + width\<close>.\<close>

record qrectf =
  rx :: real
  ry :: real
  rw :: real
  rh :: real

definition QRectF :: "real \<Rightarrow> real \<Rightarrow> real \<Rightarrow> real \<Rightarrow> qrectf" where
  "QRectF x y w h = \<lparr>rx = x, ry = y, rw = w, rh = h\<rparr>"

definition toRectF :: "qrect \<Rightarrow> qrectf" where
  "toRectF r = QRectF (real_of_int (x1 r)) (real_of_int (y1 r))
                      (real_of_int (width r)) (real_of_int (height r))"

definition topLeftF :: "qrectf \<Rightarrow> qpointf" where
  "topLeftF r = QPointF (rx r) (ry r)"

definition normalizedF :: "qrectf \<Rightarrow> qrectf" where
  "normalizedF r =
     \<lparr>rx = (if rw r < 0 then rx r + rw r else rx r),
      ry = (if rh r < 0 then ry r + rh r else ry r),
      rw = (if rw r < 0 then - rw r else rw r),
      rh = (if rh r < 0 then - rh r else rh r)\<rparr>"

definition isEmptyF :: "qrectf \<Rightarrow> bool" where
  "isEmptyF r = (rw r \<le> 0 \<or> rh r \<le> 0)"

definition adjustedF :: "qrectf \<Rightarrow> real \<Rightarrow> real \<Rightarrow> real \<Rightarrow> real \<Rightarrow> qrectf" where
  "adjustedF r dx1 dy1 dx2 dy2 = QRectF (rx r + dx1) (ry r + dy1) (rw r + dx2 - dx1) (rh r + dy2 - dy1)"

definition translatedF :: "qrectf \<Rightarrow> qpointf \<Rightarrow> qrectf" where
  "translatedF r p = QRectF (rx r + fx p) (ry r + fy p) (rw r) (rh r)"

definition containsPointF :: "qrectf \<Rightarrow> qpointf \<Rightarrow> bool" where
  "containsPointF r p =
     (let l = (if rw r < 0 then rx r + rw r else rx r);
          rr = (if rw r < 0 then rx r else rx r + rw r);
          t = (if rh r < 0 then ry r + rh r else ry r);
          b = (if rh r < 0 then ry r else ry r + rh r)
      in
      if l = rr then False
      else if fx p < l \<or> fx p > rr then False
      else if t = b then False
      else if fy p < t \<or> fy p > b then False
      else True)"





definition moveToF :: "qrectf \<Rightarrow> real \<Rightarrow> real \<Rightarrow> qrectf" where
  "moveToF r x y = r\<lparr>rx := x, ry := y\<rparr>"

definition containsRectF :: "qrectf \<Rightarrow> qrectf \<Rightarrow> bool" where
  "containsRectF a b =
     (let l1 = (if rw a < 0 then rx a + rw a else rx a);
          r1 = (if rw a < 0 then rx a else rx a + rw a);
          l2 = (if rw b < 0 then rx b + rw b else rx b);
          r2 = (if rw b < 0 then rx b else rx b + rw b);
          t1 = (if rh a < 0 then ry a + rh a else ry a);
          b1 = (if rh a < 0 then ry a else ry a + rh a);
          t2 = (if rh b < 0 then ry b + rh b else ry b);
          b2 = (if rh b < 0 then ry b else ry b + rh b)
      in
      if l1 = r1 then False
      else if l2 = r2 then False
      else if l2 < l1 \<or> r2 > r1 then False
      else if t1 = b1 then False
      else if t2 = b2 then False
      else if t2 < t1 \<or> b2 > b1 then False
      else True)"

text \<open>\<open>QRectF::toRect()\<close> rounds the two corners; \<open>toAlignedRect()\<close> takes the smallest
  integer rectangle around the real one.\<close>

definition toRect :: "qrectf \<Rightarrow> qrect" where
  "toRect r = \<lparr>x1 = qRound (rx r), y1 = qRound (ry r),
               x2 = qRound (rx r + rw r) - 1, y2 = qRound (ry r + rh r) - 1\<rparr>"

definition toAlignedRect :: "qrectf \<Rightarrow> qrect" where
  "toAlignedRect r =
     (let xmin = \<lfloor>rx r\<rfloor>; xmax = \<lceil>rx r + rw r\<rceil>; ymin = \<lfloor>ry r\<rfloor>; ymax = \<lceil>ry r + rh r\<rceil>
      in QRect xmin ymin (xmax - xmin) (ymax - ymin))"

subsection \<open>State\<close>

record CanvasImage =
  image :: qimage
  rect :: qrectf

datatype RememberLastRectangularRegion = Never | Always | UntilClosed

datatype signalSE = grabDoneSE grab | screensRectChanged | screenImagesChanged

text \<open>The fields of \<open>SelectionEditorPrivate\<close> that the modelled functions use (\<open>d->\<close> in the
  source), together with what they write outside the editor: the stored crop region of
  the settings, the crop of the annotation canvas and the emitted signals. The rectangle
  of the \<open>Selection\<close> object is \<open>d_selection\<close>.\<close>

record SelectionEditor =
  d_selection :: qrectf
  d_startPos :: qpointf
  d_initialTopLeft :: qpointf
  d_dragLocation :: MouseState
  d_devicePixel :: real
  d_disableArrowKeys :: bool
  d_image :: qpixmap
  d_screenImages :: "CanvasImage list"
  d_devicePixelRatio :: real
  d_screensRect :: qrectf
  d_handlePositions :: handles
  d_handleRadius :: real
  settingsRemember :: RememberLastRectangularRegion
  settingsCropRegion :: qrect
  canvasCrop :: "qrectf option"
  emittedSE :: "signalSE list"

text \<open>What the editor reads from the platform: \<open>KWindowSystem::isPlatformX11()\<close> and
  \<open>qGuiApp->devicePixelRatio()\<close>.\<close>

record platformSE =
  isX11 :: bool
  appDevicePixelRatio :: real

subsection \<open>The location classifier\<close>

definition s_borderDragAreaSize :: real where "s_borderDragAreaSize = 10"

text \<open>\<open>SelectionEditorPrivate::mouseLocation\<close>. \<open>Geometry::ellipseContains\<close> is defined
  outside the files at hand and is the parameter \<open>ellipseContains\<close>.\<close>

definition borderLocationSE :: "qrectf \<Rightarrow> qpointf \<Rightarrow> MouseState" where
  "borderLocationSE r pos =
     (case (if rw r \<ge> 100 \<and> rh r \<ge> 100 then
              (if containsPointF (adjustedF r 0 0 0 (- rh r + s_borderDragAreaSize)) pos then Some Top
               else if containsPointF (adjustedF r 0 (rh r - s_borderDragAreaSize) 0 0) pos then Some Bottom
               else if containsPointF (adjustedF r 0 0 (- rw r + s_borderDragAreaSize) 0) pos then Some Left
               else if containsPointF (adjustedF r (rw r - s_borderDragAreaSize) 0 0 0) pos then Some Right
               else None)
            else None) of
        Some m \<Rightarrow> m
      | None \<Rightarrow> if containsPointF r pos then Inside else Outside)"

definition mouseLocationSE ::
  "(qrectf \<Rightarrow> qpointf \<Rightarrow> bool) \<Rightarrow> SelectionEditor \<Rightarrow> qpointf \<Rightarrow> MouseState" where
  "mouseLocationSE ellipseContains st pos =
     (let hr = d_handleRadius st;
          handleRect = QRectF (- hr) (- hr) (hr * 2) (hr * 2);
          hp = d_handlePositions st
      in
      if ellipseContains (translatedF handleRect (h0 hp)) pos then TopLeft
      else if ellipseContains (translatedF handleRect (h1 hp)) pos then TopRight
      else if ellipseContains (translatedF handleRect (h2 hp)) pos then BottomRight
      else if ellipseContains (translatedF handleRect (h3 hp)) pos then BottomLeft
      else if ellipseContains (translatedF handleRect (h4 hp)) pos then Top
      else if ellipseContains (translatedF handleRect (h5 hp)) pos then Right
      else if ellipseContains (translatedF handleRect (h6 hp)) pos then Bottom
      else if ellipseContains (translatedF handleRect (h7 hp)) pos then Left
      else borderLocationSE (normalizedF (d_selection st)) pos)"

subsection \<open>Pointer moves and arrow keys\<close>

text \<open>\<open>SelectionEditor::mouseMoveEvent\<close>: the rectangle handed to \<open>Selection::setRect\<close>
  (\<open>None\<close> when the selection is not touched) for the pointer position \<open>mousePos\<close>, already
  mapped to the editor's coordinates. \<open>Geometry::rectBounded\<close> is defined outside the files
  at hand and is the parameter \<open>rectBounded\<close>; so is the \<open>Selection\<close> class, of which
  \<open>d_selection\<close> is the rectangle it reports.\<close>

definition moveInsideSE :: "(qrectf \<Rightarrow> qrectf \<Rightarrow> qrectf) \<Rightarrow> qpointf \<Rightarrow> SelectionEditor \<Rightarrow> qrectf" where
  "moveInsideSE rectBounded mousePos st =
     (let dpr = d_devicePixelRatio st;
          corner = pointfMul (pointfAdd (pointfSub mousePos (d_startPos st)) (d_initialTopLeft st)) dpr;
          newRect = QRectF (fx corner) (fy corner) (rw (d_selection st) * dpr) (rh (d_selection st) * dpr);
          translatedScreensRect =
            translatedF (d_screensRect st) (QPointF (- rx (d_screensRect st)) (- ry (d_screensRect st)));
          newRect2 =
            (if \<not> containsRectF translatedScreensRect newRect then
               moveToF newRect
                 (min (rx translatedScreensRect + rw translatedScreensRect - rw newRect)
                      (max (rx newRect) (rx translatedScreensRect)) * d_devicePixel st)
                 (min (ry translatedScreensRect + rh translatedScreensRect - rh newRect)
                      (max (ry newRect) (ry translatedScreensRect)) * d_devicePixel st)
             else newRect)
      in rectBounded newRect2 (d_screensRect st))"

definition mouseMoveEventSE ::
  "(qrectf \<Rightarrow> qrectf \<Rightarrow> qrectf) \<Rightarrow> qpointf \<Rightarrow> SelectionEditor \<Rightarrow> qrectf option" where
  "mouseMoveEventSE rectBounded mousePos st =
     (let mx = fx mousePos; my = fy mousePos;
          sx = fx (d_startPos st); sy = fy (d_startPos st);
          afterX = (mx \<ge> sx); afterY = (my \<ge> sy);
          dp = d_devicePixel st;
          sel = d_selection st
      in
      case d_dragLocation st of
        NoneState \<Rightarrow> None
      | TopLeft \<Rightarrow>
          Some (QRectF (if afterX then sx else mx) (if afterY then sy else my)
                  (\<bar>mx - sx\<bar> + (if afterX then dp else 0)) (\<bar>my - sy\<bar> + (if afterY then dp else 0)))
      | TopRight \<Rightarrow>
          Some (QRectF (if afterX then sx else mx) (if afterY then sy else my)
                  (\<bar>mx - sx\<bar> + (if afterX then dp else 0)) (\<bar>my - sy\<bar> + (if afterY then dp else 0)))
      | BottomRight \<Rightarrow>
          Some (QRectF (if afterX then sx else mx) (if afterY then sy else my)
                  (\<bar>mx - sx\<bar> + (if afterX then dp else 0)) (\<bar>my - sy\<bar> + (if afterY then dp else 0)))
      | BottomLeft \<Rightarrow>
          Some (QRectF (if afterX then sx else mx) (if afterY then sy else my)
                  (\<bar>mx - sx\<bar> + (if afterX then dp else 0)) (\<bar>my - sy\<bar> + (if afterY then dp else 0)))
      | Outside \<Rightarrow>
          Some (QRectF (min mx sx) (min my sy) (\<bar>mx - sx\<bar> + dp) (\<bar>my - sy\<bar> + dp))
      | Top \<Rightarrow>
          Some (QRectF (rx sel) (if afterY then sy else my)
                  (rw sel) (\<bar>my - sy\<bar> + (if afterY then dp else 0)))
      | Bottom \<Rightarrow>
          Some (QRectF (rx sel) (if afterY then sy else my)
                  (rw sel) (\<bar>my - sy\<bar> + (if afterY then dp else 0)))
      | Right \<Rightarrow>
          Some (QRectF (if afterX then sx else mx) (ry sel)
                  (\<bar>mx - sx\<bar> + (if afterX then dp else 0)) (rh sel))
      | Left \<Rightarrow>
          Some (QRectF (if afterX then sx else mx) (ry sel)
                  (\<bar>mx - sx\<bar> + (if afterX then dp else 0)) (rh sel))
      | Inside \<Rightarrow> Some (moveInsideSE rectBounded mousePos st))"







subsection \<open>Building the canvas\<close>

text \<open>The first loop of \<open>SelectionEditor::setScreenImages\<close>: the bounding rectangle of the
  screens.\<close>

fun unitedScreens :: "bool \<Rightarrow> qrect \<Rightarrow> CanvasImage list \<Rightarrow> qrect" where
  "unitedScreens x11 screensRect [] = screensRect"
| "unitedScreens x11 screensRect (ci # rest) =
     (let screenPos = toPoint (topLeftF (rect ci));
          dpr = idpr (image ci);
          virtualScreenRect =
            (if x11 then QRectPS screenPos (isize (image ci))
             else QRectPS screenPos (sizeDiv (isize (image ci)) dpr))
      in unitedScreens x11 (united screensRect virtualScreenRect) rest)"

text \<open>The loop commented ``compute coordinates after scaling'': for the screen at index
  \<open>i\<close> whose ratio is not 1, the inner loop over \<open>i2 = i, ..\<close> adds \<open>deltaX\<close>, \<open>deltaY\<close> to
  the points of the screens lying beyond it.\<close>

definition shiftOne ::
  "CanvasImage list \<Rightarrow> qpoint \<Rightarrow> int \<Rightarrow> int \<Rightarrow> int \<Rightarrow> int \<Rightarrow> nat \<Rightarrow> qpoint list \<Rightarrow> qpoint list" where
  "shiftOne screenImages p newWidth newHeight deltaX deltaY i2 translatedPoints =
     (let point = topLeftF (rect (screenImages ! i2));
          tp1 = (if fx point \<ge> real_of_int (newWidth + px p - deltaX)
                 then translatedPoints[i2 := (translatedPoints ! i2)\<lparr>px := px (translatedPoints ! i2) + deltaX\<rparr>]
                 else translatedPoints);
          tp2 = (if fy point \<ge> real_of_int (newHeight + py p - deltaY)
                 then tp1[i2 := (tp1 ! i2)\<lparr>py := py (tp1 ! i2) + deltaY\<rparr>]
                 else tp1)
      in tp2)"

definition shiftFollowing :: "CanvasImage list \<Rightarrow> nat \<Rightarrow> qpoint list \<Rightarrow> qpoint list" where
  "shiftFollowing screenImages i translatedPoints =
     (let img = image (screenImages ! i);
          p = toPoint (topLeftF (rect (screenImages ! i)));
          sz = isize img;
          dpr = idpr img
      in
      if \<not> qFuzzyCompare dpr 1 then
        (let newWidth = wd sz;
             newHeight = ht sz;
             deltaX = newWidth - wd sz;
             deltaY = newHeight - ht sz
         in fold (shiftOne screenImages p newWidth newHeight deltaX deltaY)
                 [i ..< length screenImages] translatedPoints)
      else translatedPoints)"

definition coordinatesAfterScaling :: "CanvasImage list \<Rightarrow> qpoint list" where
  "coordinatesAfterScaling screenImages =
     fold (shiftFollowing screenImages) [0 ..< length screenImages]
          (map (\<lambda>ci. toPoint (topLeftF (rect ci))) screenImages)"

text \<open>The painting loop: every image is drawn, with its ratio reset to 1, at its
  translated point relative to the top-left corner of the bounding rectangle.\<close>

definition paintScreens :: "qrect \<Rightarrow> CanvasImage list \<Rightarrow> qpoint list \<Rightarrow> paintOp list" where
  "paintScreens screensRect screenImages translatedPoints =
     map (\<lambda>i. DrawImage (pointSub (translatedPoints ! i) (topLeft screensRect))
                         ((image (screenImages ! i))\<lparr>idpr := 1\<rparr>))
         [0 ..< length screenImages]"

definition setScreenImages :: "platformSE \<Rightarrow> CanvasImage list \<Rightarrow> SelectionEditor \<Rightarrow> SelectionEditor" where
  "setScreenImages pf screenImages st =
     (let screensRect = unitedScreens (isX11 pf) nullRect screenImages;
          st1 = st\<lparr>d_screenImages := screenImages\<rparr>;
          translatedPoints = coordinatesAfterScaling screenImages;
          st2 = st1\<lparr>d_image := \<lparr>psize = rsize screensRect, pdpr = 1,
                                  pops = paintScreens screensRect screenImages translatedPoints\<rparr>\<rparr>;
          st3 = (if d_screensRect st2 \<noteq> toRectF screensRect
                 then st2\<lparr>d_screensRect := toRectF screensRect,
                          emittedSE := emittedSE st2 @ [screensRectChanged]\<rparr>
                 else st2)
      in st3\<lparr>emittedSE := emittedSE st3 @ [screenImagesChanged]\<rparr>)"

text \<open>The rectangle of the target that a painter call covers: an image drawn at a point
  covers its own size there.\<close>

fun paintedRect :: "paintOp \<Rightarrow> qrect" where
  "paintedRect (DrawImage p img) = QRectPS p (sizeDiv (isize img) (idpr img))"
| "paintedRect (DrawImageRect r img) = r"
| "paintedRect (FillRectBrush r img c) = r"

subsection \<open>Committing the selection\<close>

definition scaledF :: "qrectf \<Rightarrow> real \<Rightarrow> qrectf" where
  "scaledF r c = QRectF (rx r * c) (ry r * c) (rw r * c) (rh r * c)"

text \<open>The loop of the Wayland branch of \<open>SelectionEditor::acceptSelection\<close> over
  \<open>d->screenImages\<close>; \<open>output\<close> is the buffer being painted. \<open>Inl\<close> is the short path
  (\<open>grabDone\<close> of the screen's own sub-image, then \<open>return true\<close>).\<close>

fun cropLoopSE :: "qrect \<Rightarrow> real \<Rightarrow> CanvasImage list \<Rightarrow> qpixmap \<Rightarrow> qimage + qpixmap" where
  "cropLoopSE selectionRect maxDpr [] output = Inr output"
| "cropLoopSE selectionRect maxDpr (it # rest) output =
     (let screenRect = toRect (rect it) in
      if intersects selectionRect screenRect then
        (let pos = topLeft screenRect;
             dpr = idpr (image it);
             intersected0 = intersected screenRect selectionRect;
             pixelOnScreenIntersected =
               setHeight
                 (setWidth
                    (moveTo nullRect (pointMul (pointSub (topLeft intersected0) pos) dpr))
                    (cint (real_of_int (width intersected0) * dpr)))
                 (cint (real_of_int (height intersected0) * dpr));
             screenOutput = imageCopy (image it) pixelOnScreenIntersected
         in
         if rsize intersected0 = rsize selectionRect then Inl (screenOutput\<lparr>idpr := dpr\<rparr>)
         else
           (let moved = moveTo intersected0
                          (pointMul (pointSub (topLeft intersected0) (topLeft selectionRect)) maxDpr);
                target = QRectPS (topLeft moved) (sizeMul (rsize moved) maxDpr)
            in cropLoopSE selectionRect maxDpr rest
                 (output\<lparr>pdpr := maxDpr, pops := pops output @ [DrawImageRect target screenOutput]\<rparr>)))
      else cropLoopSE selectionRect maxDpr rest output)"

text \<open>\<open>SelectionEditor::acceptSelection\<close>; the result is the returned \<open>bool\<close> and the
  editor afterwards. \<open>Geometry::rectClipped\<close> is defined outside the files at hand and is
  the parameter \<open>rectClipped\<close>.\<close>

definition acceptSelectionSE ::
  "platformSE \<Rightarrow> (qrectf \<Rightarrow> qrectf \<Rightarrow> qrectf) \<Rightarrow> SelectionEditor \<Rightarrow> bool \<times> SelectionEditor" where
  "acceptSelectionSE pf rectClipped st =
     (if d_screenImages st = [] then (False, st)
      else
        (let selectionRect0 = normalizedF (d_selection st);
             st1 = (if settingsRemember st = Always
                    then st\<lparr>settingsCropRegion := toAlignedRect selectionRect0\<rparr> else st);
             selectionRect = (if isEmptyF selectionRect0 then d_screensRect st1 else selectionRect0);
             st2 = st1\<lparr>canvasCrop := Some selectionRect\<rparr>
         in
         if isX11 pf then
           (let st3 = st2\<lparr>d_image := (d_image st2)\<lparr>pdpr := appDevicePixelRatio pf\<rparr>\<rparr>;
                imageCropRegion =
                  toRect (rectClipped (scaledF selectionRect (d_devicePixelRatio st3))
                                      (scaledF (d_screensRect st3) (d_devicePixelRatio st3)))
            in
            if rsize imageCropRegion \<noteq> psize (d_image st3)
            then (True, st3\<lparr>emittedSE := emittedSE st3 @
                              [grabDoneSE (GrabPixmapCopy (d_image st3) imageCropRegion)]\<rparr>)
            else (True, st3\<lparr>emittedSE := emittedSE st3 @ [grabDoneSE (GrabPixmap (d_image st3))]\<rparr>))
         else
           (let maxDpr = appDevicePixelRatio pf;
                selectionRectW = toRect (normalizedF (d_selection st2));
                selectionSize = rsize selectionRectW;
                output = \<lparr>psize = sizeMul selectionSize maxDpr, pdpr = 1, pops = []\<rparr>
            in
            case cropLoopSE selectionRectW maxDpr (d_screenImages st2) output of
              Inl screenOutput \<Rightarrow>
                (True, st2\<lparr>emittedSE := emittedSE st2 @ [grabDoneSE (GrabImage screenOutput)]\<rparr>)
            | Inr output1 \<Rightarrow>
                (True, st2\<lparr>emittedSE := emittedSE st2 @ [grabDoneSE (GrabPixmap output1)]\<rparr>))))"

section \<open>Vocabulary of the properties\<close>

text \<open>The hit-zone of a handle of \<open>QuickEditor\<close>, and the groups of zones and of states
  that the properties speak about.\<close>

definition inCircle :: "int \<Rightarrow> qpointf \<Rightarrow> qpointf \<Rightarrow> bool" where
  "inCircle rad h pos = isPointInsideCircle h (real_of_int rad * increaseDragAreaFactor) pos"

definition inCornerZone :: "handles \<Rightarrow> int \<Rightarrow> qpointf \<Rightarrow> bool" where
  "inCornerZone hp rad pos =
     (inCircle rad (h0 hp) pos \<or> inCircle rad (h1 hp) pos \<or> inCircle rad (h2 hp) pos
      \<or> inCircle rad (h3 hp) pos)"

definition inEdgeHandleZone :: "handles \<Rightarrow> int \<Rightarrow> qpointf \<Rightarrow> bool" where
  "inEdgeHandleZone hp rad pos =
     (inCircle rad (h4 hp) pos \<or> inCircle rad (h5 hp) pos \<or> inCircle rad (h6 hp) pos
      \<or> inCircle rad (h7 hp) pos)"

definition isCornerState :: "MouseState \<Rightarrow> bool" where
  "isCornerState m = (m = TopLeft \<or> m = TopRight \<or> m = BottomRight \<or> m = BottomLeft)"

definition isEdgeState :: "MouseState \<Rightarrow> bool" where
  "isEdgeState m = (m = Top \<or> m = Right \<or> m = Bottom \<or> m = Left)"

text \<open>A rectangle that is not inverted.\<close>

definition wellFormed :: "qrect \<Rightarrow> bool" where
  "wellFormed r = (0 \<le> width r \<and> 0 \<le> height r)"



text \<open>The hit-zone of a handle of \<open>SelectionEditor\<close>: the ellipse in the square of side
  twice the handle radius around the handle.\<close>

definition inZoneSE :: "(qrectf \<Rightarrow> qpointf \<Rightarrow> bool) \<Rightarrow> real \<Rightarrow> qpointf \<Rightarrow> qpointf \<Rightarrow> bool" where
  "inZoneSE ellipseContains hr h pos =
     ellipseContains (translatedF (QRectF (- hr) (- hr) (hr * 2) (hr * 2)) h) pos"

definition inCornerZoneSE :: "(qrectf \<Rightarrow> qpointf \<Rightarrow> bool) \<Rightarrow> SelectionEditor \<Rightarrow> qpointf \<Rightarrow> bool" where
  "inCornerZoneSE ellipseContains st pos =
     (inZoneSE ellipseContains (d_handleRadius st) (h0 (d_handlePositions st)) pos
      \<or> inZoneSE ellipseContains (d_handleRadius st) (h1 (d_handlePositions st)) pos
      \<or> inZoneSE ellipseContains (d_handleRadius st) (h2 (d_handlePositions st)) pos
      \<or> inZoneSE ellipseContains (d_handleRadius st) (h3 (d_handlePositions st)) pos)"

definition inEdgeHandleZoneSE :: "(qrectf \<Rightarrow> qpointf \<Rightarrow> bool) \<Rightarrow> SelectionEditor \<Rightarrow> qpointf \<Rightarrow> bool" where
  "inEdgeHandleZoneSE ellipseContains st pos =
     (inZoneSE ellipseContains (d_handleRadius st) (h4 (d_handlePositions st)) pos
      \<or> inZoneSE ellipseContains (d_handleRadius st) (h5 (d_handlePositions st)) pos
      \<or> inZoneSE ellipseContains (d_handleRadius st) (h6 (d_handlePositions st)) pos
      \<or> inZoneSE ellipseContains (d_handleRadius st) (h7 (d_handlePositions st)) pos)"

text \<open>Modelled from the spec: \<open>Geometry::ellipseContains\<close>, which is not among the files at
  hand, is membership in the handle's circular hit-zone: the point lies in the ellipse
  inscribed in the rectangle. It is used for the example configurations only.\<close>

definition ellipseContainsSpec :: "qrectf \<Rightarrow> qpointf \<Rightarrow> bool" where
  "ellipseContainsSpec r p =
     (rw r \<noteq> 0 \<and> rh r \<noteq> 0
      \<and> ((fx p - (rx r + rw r / 2)) / (rw r / 2)) ^ 2
        + ((fy p - (ry r + rh r / 2)) / (rh r / 2)) ^ 2 \<le> 1)"

text \<open>Modelled from the spec: \<open>Geometry::rectBounded\<close>, which is not among the files at
  hand, clamps a rectangle to the combined screen bounds: the rectangle is moved, with its
  size, into the bounds. It is used for the example configurations only.\<close>

definition rectBoundedSpec :: "qrectf \<Rightarrow> qrectf \<Rightarrow> qrectf" where
  "rectBoundedSpec r b =
     r\<lparr>rx := min (rx b + rw b - rw r) (max (rx r) (rx b)),
       ry := min (ry b + rh b - rh r) (max (ry r) (ry b))\<rparr>"







section \<open>Example configurations\<close>

definition origin :: qpointf where "origin = QPointF 0 0"

definition noHandles :: handles where
  "noHandles = \<lparr>h0 = origin, h1 = origin, h2 = origin, h3 = origin,
                h4 = origin, h5 = origin, h6 = origin, h7 = origin\<rparr>"

text \<open>A \<open>QuickEditor\<close> right after construction over the given bounding rectangle, at
  ratio 1, without a remembered selection.\<close>

definition freshEditor :: "qrect \<Rightarrow> QuickEditor" where
  "freshEditor screensRect =
     \<lparr>mSelection = nullRect, mStartPos = origin, mInitialTopLeft = origin, mMousePos = origin,
      mMouseDragState = NoneState, mScreensRect = screensRect,
      devicePixelRatio = 1, devicePixelRatioI = 1,
      mHandlePositions = noHandles,
      mHandleRadius = handleRadiusMouse, mMagnifierAllowed = False, mToggleMagnifier = False,
      mDisableArrowKeys = False, mReleaseToCapture = False,
      mImages = [], mScreenToDpr = [],
      mPixmap = \<lparr>psize = rsize screensRect, pdpr = 1, pops = []\<rparr>,
      widgetSize = rsize screensRect, cropRegion = [], emitted = []\<rparr>"

definition waylandNoScreens :: platform where
  "waylandNoScreens = \<lparr>isPlatformX11 = False, screens = []\<rparr>"

text \<open>Editors on a 1920x1080 canvas showing a 100x100 and a 50x50 selection.\<close>

definition squareEditor :: QuickEditor where
  "squareEditor =
     paintEvent 1 ((freshEditor (QRect 0 0 1920 1080))\<lparr>mSelection := QRect 200 200 100 100\<rparr>)"

definition smallEditor :: QuickEditor where
  "smallEditor =
     paintEvent 1 ((freshEditor (QRect 0 0 1920 1080))\<lparr>mSelection := QRect 200 200 50 50\<rparr>)"

text \<open>On a 100x100 canvas: a selection is drawn over the full width, from (0,50) to
  (99,69); it is then grabbed at (50,60) and dragged to the top edge.\<close>

definition fullWidthDrag :: "event list" where
  "fullWidthDrag =
     [MousePress (QPoint 0 50) LeftButton False, MouseMove (QPoint 99 69), MouseRelease LeftButton,
      Paint 1, MousePress (QPoint 50 60) LeftButton False]"

text \<open>Three 100x100 screens in a row, the third of ratio 2, with their images; an editor
  over them on Wayland, its widget covering the united rectangle.\<close>

definition screenLeft :: qscreen where
  "screenLeft = \<lparr>sid = 0, geometry = QRect 0 0 100 100, screenDevicePixelRatio = 1\<rparr>"

definition screenMiddle :: qscreen where
  "screenMiddle = \<lparr>sid = 1, geometry = QRect 100 0 100 100, screenDevicePixelRatio = 1\<rparr>"

definition screenRight :: qscreen where
  "screenRight = \<lparr>sid = 2, geometry = QRect 200 0 100 100, screenDevicePixelRatio = 2\<rparr>"


definition threeScreensX11 :: platform where
  "threeScreensX11 = \<lparr>isPlatformX11 = True, screens = [screenLeft, screenMiddle, screenRight]\<rparr>"


definition freshSelectionEditor :: SelectionEditor where
  "freshSelectionEditor =
     \<lparr>d_selection = QRectF 0 0 0 0, d_startPos = origin, d_initialTopLeft = origin,
      d_dragLocation = NoneState, d_devicePixel = 1, d_disableArrowKeys = False,
      d_image = \<lparr>psize = QSize 0 0, pdpr = 1, pops = []\<rparr>,
      d_screenImages = [], d_devicePixelRatio = 1, d_screensRect = QRectF 0 0 0 0,
      d_handlePositions = noHandles,
      d_handleRadius = 9, settingsRemember = Never, settingsCropRegion = nullRect,
      canvasCrop = None, emittedSE = []\<rparr>"

definition waylandAt :: "real \<Rightarrow> platformSE" where
  "waylandAt appDpr = \<lparr>isX11 = False, appDevicePixelRatio = appDpr\<rparr>"

definition x11At :: "real \<Rightarrow> platformSE" where
  "x11At appDpr = \<lparr>isX11 = True, appDevicePixelRatio = appDpr\<rparr>"

text \<open>A 1920x1080 screen of ratio 2 at the origin (its image has 3840x2160 pixels) and a
  1920x1080 screen of ratio 1 to its right.\<close>

definition denseScreen :: CanvasImage where
  "denseScreen = \<lparr>image = \<lparr>isize = QSize 3840 2160, idpr = 2, idata = Captured 0\<rparr>,
                  rect = QRectF 0 0 1920 1080\<rparr>"

definition plainScreen :: CanvasImage where
  "plainScreen = \<lparr>image = \<lparr>isize = QSize 1920 1080, idpr = 1, idata = Captured 1\<rparr>,
                  rect = QRectF 1920 0 1920 1080\<rparr>"

text \<open>The scenario of the specification: screen A of ratio 1 at the origin and screen B of
  ratio 2 to its right, both 1920x1080.\<close>

definition screenA :: CanvasImage where
  "screenA = \<lparr>image = \<lparr>isize = QSize 1920 1080, idpr = 1, idata = Captured 0\<rparr>,
              rect = QRectF 0 0 1920 1080\<rparr>"

definition screenB :: CanvasImage where
  "screenB = \<lparr>image = \<lparr>isize = QSize 3840 2160, idpr = 2, idata = Captured 1\<rparr>,
              rect = QRectF 1920 0 1920 1080\<rparr>"

definition twoScreenEditor :: SelectionEditor where
  "twoScreenEditor = setScreenImages (waylandAt 2) [screenA, screenB] freshSelectionEditor"

text \<open>A \<open>SelectionEditor\<close> over screens A and B showing a 100x100 selection, its handles on
  the corners and edge midpoints, and the same with a 50x50 selection, whose handles
  float 13 units outside.\<close>

definition squareSelectionEditor :: SelectionEditor where
  "squareSelectionEditor =
     twoScreenEditor
       \<lparr>d_selection := QRectF 200 200 100 100,
        d_handlePositions :=
          \<lparr>h0 = QPointF 200 200, h1 = QPointF 300 200, h2 = QPointF 300 300, h3 = QPointF 200 300,
           h4 = QPointF 250 200, h5 = QPointF 300 250, h6 = QPointF 250 300, h7 = QPointF 200 250\<rparr>\<rparr>"

definition smallSelectionEditor :: SelectionEditor where
  "smallSelectionEditor =
     twoScreenEditor
       \<lparr>d_selection := QRectF 200 200 50 50,
        d_handlePositions :=
          \<lparr>h0 = QPointF 187 187, h1 = QPointF 263 187, h2 = QPointF 263 263, h3 = QPointF 187 263,
           h4 = QPointF 225 187, h5 = QPointF 263 225, h6 = QPointF 225 263, h7 = QPointF 187 225\<rparr>\<rparr>"

text \<open>The drag of the specification: \<open>SelectionEditor\<close> in state \<open>TopLeft\<close>, anchored at the
  bottom-right corner (800,600) of its selection.\<close>

definition anchoredEditor :: SelectionEditor where
  "anchoredEditor =
     twoScreenEditor\<lparr>d_selection := QRectF 300 200 500 400, d_startPos := QPointF 800 600,
                     d_dragLocation := TopLeft\<rparr>"

text \<open>A single 1920x1080 screen of ratio 1, for both editors.\<close>

definition fullHD :: CanvasImage where
  "fullHD = \<lparr>image = \<lparr>isize = QSize 1920 1080, idpr = 1, idata = Captured 0\<rparr>,
             rect = QRectF 0 0 1920 1080\<rparr>"

definition screenFullHD :: qscreen where
  "screenFullHD = \<lparr>sid = 0, geometry = QRect 0 0 1920 1080, screenDevicePixelRatio = 1\<rparr>"

definition oneScreen :: "bool \<Rightarrow> platform" where
  "oneScreen onX11 = \<lparr>isPlatformX11 = onX11, screens = [screenFullHD]\<rparr>"

definition fullHDEditor :: "bool \<Rightarrow> QuickEditor" where
  "fullHDEditor onX11 =
     (preparePaint (oneScreen onX11)
        ((freshEditor nullRect)
           \<lparr>mImages := [(screenFullHD, \<lparr>isize = QSize 1920 1080, idpr = 1, idata = Captured 0\<rparr>)]\<rparr>))
       \<lparr>widgetSize := QSize 1920 1080,
        mPixmap := \<lparr>psize = QSize 1920 1080, pdpr = 1,
                    pops = [DrawImage (QPoint 0 0) \<lparr>isize = QSize 1920 1080, idpr = 1, idata = Captured 0\<rparr>]\<rparr>\<rparr>"

text \<open>On a 100x100 canvas: a 10x10 selection is drawn down to the bottom edge.\<close>

definition bottomEdgeDrag :: "event list" where
  "bottomEdgeDrag =
     [MousePress (QPoint 0 90) LeftButton False, MouseMove (QPoint 9 99), MouseRelease LeftButton]"







section \<open>Properties of the conversions and rectangles\<close>

lemma cint_nonneg: "0 \<le> d \<Longrightarrow> 0 \<le> cint d"
  by (simp add: cint_def)

lemma cint_of_int: "cint (real_of_int n) = n"
  by (simp add: cint_def)







lemma wellFormed_setRectF: "0 \<le> w \<Longrightarrow> 0 \<le> h \<Longrightarrow> wellFormed (setRectF x y w h)"
  using cint_nonneg [of w] cint_nonneg [of h]
  by (simp add: wellFormed_def setRectF_def QRect_def width_def height_def)

lemma wellFormed_moveTo: "wellFormed r \<Longrightarrow> wellFormed (moveTo r p)"
  by (simp add: wellFormed_def moveTo_def width_def height_def)

lemma wellFormed_normalized: "wellFormed (normalized r)"
  by (simp add: wellFormed_def normalized_def width_def height_def)

lemma wellFormed_moves:
  "wellFormed r \<Longrightarrow> wellFormed (moveTop r a)"
  "wellFormed r \<Longrightarrow> wellFormed (moveLeft r a)"
  "wellFormed r \<Longrightarrow> wellFormed (moveBottom r a)"
  "wellFormed r \<Longrightarrow> wellFormed (moveRight r a)"
  by (simp_all add: wellFormed_def moveTop_def moveLeft_def moveBottom_def moveRight_def
      width_def height_def)




section \<open>The location classifier\<close>

lemma quickEditor_precedence:
  "(inCircle rad (h0 hp) pos \<longrightarrow> mouseLocation hp rad sel pos = TopLeft) \<and>
   (\<not> inCircle rad (h0 hp) pos \<and> inCircle rad (h1 hp) pos
      \<longrightarrow> mouseLocation hp rad sel pos = TopRight) \<and>
   (\<not> inCircle rad (h0 hp) pos \<and> \<not> inCircle rad (h1 hp) pos \<and> inCircle rad (h2 hp) pos
      \<longrightarrow> mouseLocation hp rad sel pos = BottomRight) \<and>
   (\<not> inCircle rad (h0 hp) pos \<and> \<not> inCircle rad (h1 hp) pos \<and> \<not> inCircle rad (h2 hp) pos
      \<and> inCircle rad (h3 hp) pos
      \<longrightarrow> mouseLocation hp rad sel pos = BottomLeft) \<and>
   (\<not> inCornerZone hp rad pos \<and> inCircle rad (h4 hp) pos
      \<longrightarrow> mouseLocation hp rad sel pos = Top) \<and>
   (\<not> inCornerZone hp rad pos \<and> \<not> inCircle rad (h4 hp) pos \<and> inCircle rad (h5 hp) pos
      \<longrightarrow> mouseLocation hp rad sel pos = Right) \<and>
   (\<not> inCornerZone hp rad pos \<and> \<not> inCircle rad (h4 hp) pos \<and> \<not> inCircle rad (h5 hp) pos
      \<and> inCircle rad (h6 hp) pos
      \<longrightarrow> mouseLocation hp rad sel pos = Bottom) \<and>
   (\<not> inCornerZone hp rad pos \<and> \<not> inCircle rad (h4 hp) pos \<and> \<not> inCircle rad (h5 hp) pos
      \<and> \<not> inCircle rad (h6 hp) pos \<and> inCircle rad (h7 hp) pos
      \<longrightarrow> mouseLocation hp rad sel pos = Left) \<and>
   (\<not> inCornerZone hp rad pos \<and> \<not> inEdgeHandleZone hp rad pos
      \<longrightarrow> mouseLocation hp rad sel pos = borderLocation sel pos) \<and>
   (100 \<le> width sel \<and> 100 \<le> height sel \<and> borderStrips sel pos = Some m
      \<longrightarrow> borderLocation sel pos = m \<and> isEdgeState m) \<and>
   (borderLocation sel pos = Inside \<or> borderLocation sel pos = Outside
      \<or> isEdgeState (borderLocation sel pos)) \<and>
   mouseLocation hp rad sel pos \<noteq> NoneState"
proof -
  have strips: "\<And>m. borderStrips sel pos = Some m \<Longrightarrow> isEdgeState m"
    by (auto simp: borderStrips_def isEdgeState_def Let_def split: if_splits)
  have border: "borderLocation sel pos = Inside \<or> borderLocation sel pos = Outside
      \<or> isEdgeState (borderLocation sel pos)"
    using strips by (auto simp: borderLocation_def split: option.splits if_splits)
  have notnone: "mouseLocation hp rad sel pos \<noteq> NoneState"
    using border by (auto simp: mouseLocation_def Let_def isEdgeState_def)
  show ?thesis
    using strips border notnone
    by (simp add: mouseLocation_def inCircle_def inCornerZone_def inEdgeHandleZone_def
        Let_def borderLocation_def)
qed

text \<open>
  C9, as the specification states it, fails at a selection of exactly 100x100: its minimum
  dimension does not exceed 100, the pointer (230,205) is in no handle circle, and the
  classifier returns the border zone \<open>Top\<close>.
\<close>

theorem borderZones_at_threshold:
  "\<not> inCornerZone (mHandlePositions squareEditor) (mHandleRadius squareEditor) (QPointF 230 205)
   \<and> \<not> inEdgeHandleZone (mHandlePositions squareEditor) (mHandleRadius squareEditor) (QPointF 230 205)
   \<and> \<not> (min (width (mSelection squareEditor)) (height (mSelection squareEditor)) > 100)
   \<and> mouseLocation (mHandlePositions squareEditor) (mHandleRadius squareEditor)
        (mSelection squareEditor) (QPointF 230 205) = Top"
  by code_simp

lemma quickEditor_borderZones:
  assumes "\<not> inCornerZone hp rad pos" and "\<not> inEdgeHandleZone hp rad pos"
  shows "(isEdgeState (mouseLocation hp rad sel pos) \<longrightarrow> 100 \<le> min (width sel) (height sel))
       \<and> (min (width sel) (height sel) < 100
            \<longrightarrow> mouseLocation hp rad sel pos = Inside \<or> mouseLocation hp rad sel pos = Outside)
       \<and> (100 \<le> min (width sel) (height sel)
            \<longrightarrow> mouseLocation hp rad sel pos =
                 (case borderStrips sel pos of
                    Some m \<Rightarrow> m
                  | None \<Rightarrow> if containsPoint sel (toPoint pos) then Inside else Outside))"
proof -
  have eq: "mouseLocation hp rad sel pos = borderLocation sel pos"
    using assms
    by (simp add: mouseLocation_def inCircle_def inCornerZone_def inEdgeHandleZone_def Let_def)
  show ?thesis
    unfolding eq
    by (auto simp: borderLocation_def isEdgeState_def split: option.splits)
qed

lemma mouseLocationSE_precedence:
  fixes ec :: "qrectf \<Rightarrow> qpointf \<Rightarrow> bool" and st :: SelectionEditor and pos :: qpointf
  defines "z \<equiv> \<lambda>h. inZoneSE ec (d_handleRadius st) (h (d_handlePositions st)) pos"
  shows
  "(z h0 \<longrightarrow> mouseLocationSE ec st pos = TopLeft) \<and>
   (\<not> z h0 \<and> z h1 \<longrightarrow> mouseLocationSE ec st pos = TopRight) \<and>
   (\<not> z h0 \<and> \<not> z h1 \<and> z h2 \<longrightarrow> mouseLocationSE ec st pos = BottomRight) \<and>
   (\<not> z h0 \<and> \<not> z h1 \<and> \<not> z h2 \<and> z h3 \<longrightarrow> mouseLocationSE ec st pos = BottomLeft) \<and>
   (\<not> z h0 \<and> \<not> z h1 \<and> \<not> z h2 \<and> \<not> z h3 \<and> z h4 \<longrightarrow> mouseLocationSE ec st pos = Top) \<and>
   (\<not> z h0 \<and> \<not> z h1 \<and> \<not> z h2 \<and> \<not> z h3 \<and> \<not> z h4 \<and> z h5
      \<longrightarrow> mouseLocationSE ec st pos = Right) \<and>
   (\<not> z h0 \<and> \<not> z h1 \<and> \<not> z h2 \<and> \<not> z h3 \<and> \<not> z h4 \<and> \<not> z h5 \<and> z h6
      \<longrightarrow> mouseLocationSE ec st pos = Bottom) \<and>
   (\<not> z h0 \<and> \<not> z h1 \<and> \<not> z h2 \<and> \<not> z h3 \<and> \<not> z h4 \<and> \<not> z h5 \<and> \<not> z h6 \<and> z h7
      \<longrightarrow> mouseLocationSE ec st pos = Left) \<and>
   (\<not> z h0 \<and> \<not> z h1 \<and> \<not> z h2 \<and> \<not> z h3 \<and> \<not> z h4 \<and> \<not> z h5 \<and> \<not> z h6 \<and> \<not> z h7
      \<longrightarrow> mouseLocationSE ec st pos = borderLocationSE (normalizedF (d_selection st)) pos) \<and>
   mouseLocationSE ec st pos \<noteq> NoneState"
  unfolding z_def
  by (simp add: mouseLocationSE_def inZoneSE_def Let_def borderLocationSE_def split: option.splits)

lemma borderLocationSE_threshold:
  "(isEdgeState (borderLocationSE r pos) \<longrightarrow> 100 \<le> min (rw r) (rh r))
   \<and> (min (rw r) (rh r) < 100
        \<longrightarrow> borderLocationSE r pos = Inside \<or> borderLocationSE r pos = Outside)"
  by (auto simp: borderLocationSE_def isEdgeState_def split: option.splits if_splits)

lemma borderLocationSE_at_threshold:
  "borderLocationSE (QRectF 200 200 100 100) (QPointF 230 205) = Top"
  by code_simp

text \<open>
  C8. The classifier is a function of the pointer position, so it returns exactly one
  state, and that state is never \<open>None\<close>. In \<open>QuickEditor::mouseLocation\<close> the first handle
  circle containing the pointer decides, the four corners being tested before the four
  edge handles; only a pointer in no handle circle is classified by the border strips, and
  a border strip that matches decides before containment (\<open>Inside\<close> or \<open>Outside\<close>) is looked
  at. \<open>SelectionEditorPrivate::mouseLocation\<close> has the same order, whatever
  \<open>ellipseContains\<close> computes.
\<close>

theorem mouseLocation_precedence:
  fixes ec :: "qrectf \<Rightarrow> qpointf \<Rightarrow> bool"
  shows
  "(inCircle rad (h0 hp) pos \<longrightarrow> mouseLocation hp rad sel pos = TopLeft) \<and>
   (\<not> inCircle rad (h0 hp) pos \<and> inCircle rad (h1 hp) pos
      \<longrightarrow> mouseLocation hp rad sel pos = TopRight) \<and>
   (\<not> inCircle rad (h0 hp) pos \<and> \<not> inCircle rad (h1 hp) pos \<and> inCircle rad (h2 hp) pos
      \<longrightarrow> mouseLocation hp rad sel pos = BottomRight) \<and>
   (\<not> inCircle rad (h0 hp) pos \<and> \<not> inCircle rad (h1 hp) pos \<and> \<not> inCircle rad (h2 hp) pos
      \<and> inCircle rad (h3 hp) pos
      \<longrightarrow> mouseLocation hp rad sel pos = BottomLeft) \<and>
   (\<not> inCornerZone hp rad pos \<and> inCircle rad (h4 hp) pos
      \<longrightarrow> mouseLocation hp rad sel pos = Top) \<and>
   (\<not> inCornerZone hp rad pos \<and> \<not> inCircle rad (h4 hp) pos \<and> inCircle rad (h5 hp) pos
      \<longrightarrow> mouseLocation hp rad sel pos = Right) \<and>
   (\<not> inCornerZone hp rad pos \<and> \<not> inCircle rad (h4 hp) pos \<and> \<not> inCircle rad (h5 hp) pos
      \<and> inCircle rad (h6 hp) pos
      \<longrightarrow> mouseLocation hp rad sel pos = Bottom) \<and>
   (\<not> inCornerZone hp rad pos \<and> \<not> inCircle rad (h4 hp) pos \<and> \<not> inCircle rad (h5 hp) pos
      \<and> \<not> inCircle rad (h6 hp) pos \<and> inCircle rad (h7 hp) pos
      \<longrightarrow> mouseLocation hp rad sel pos = Left) \<and>
   (\<not> inCornerZone hp rad pos \<and> \<not> inEdgeHandleZone hp rad pos
      \<longrightarrow> mouseLocation hp rad sel pos = borderLocation sel pos) \<and>
   (100 \<le> width sel \<and> 100 \<le> height sel \<and> borderStrips sel pos = Some m
      \<longrightarrow> borderLocation sel pos = m \<and> isEdgeState m) \<and>
   (borderLocation sel pos = Inside \<or> borderLocation sel pos = Outside
      \<or> isEdgeState (borderLocation sel pos)) \<and>
   mouseLocation hp rad sel pos \<noteq> NoneState \<and>
   (inCornerZoneSE ec st p \<longrightarrow> isCornerState (mouseLocationSE ec st p)) \<and>
   (\<not> inCornerZoneSE ec st p \<and> inEdgeHandleZoneSE ec st p
      \<longrightarrow> isEdgeState (mouseLocationSE ec st p)) \<and>
   (\<not> inCornerZoneSE ec st p \<and> \<not> inEdgeHandleZoneSE ec st p
      \<longrightarrow> mouseLocationSE ec st p = borderLocationSE (normalizedF (d_selection st)) p) \<and>
   mouseLocationSE ec st p \<noteq> NoneState"
proof -
  have se: "(inCornerZoneSE ec st p \<longrightarrow> isCornerState (mouseLocationSE ec st p)) \<and>
   (\<not> inCornerZoneSE ec st p \<and> inEdgeHandleZoneSE ec st p
      \<longrightarrow> isEdgeState (mouseLocationSE ec st p)) \<and>
   (\<not> inCornerZoneSE ec st p \<and> \<not> inEdgeHandleZoneSE ec st p
      \<longrightarrow> mouseLocationSE ec st p = borderLocationSE (normalizedF (d_selection st)) p) \<and>
   mouseLocationSE ec st p \<noteq> NoneState"
    using mouseLocationSE_precedence [of ec st p]
    unfolding inCornerZoneSE_def inEdgeHandleZoneSE_def isCornerState_def isEdgeState_def
    by metis
  show ?thesis
    using quickEditor_precedence [of rad hp pos sel m] se by simp
qed

theorem mouseLocation_precedence_witness:
  "inCircle 9 (h0 (mHandlePositions smallEditor)) (QPointF 190 190)
   \<and> mouseLocation (mHandlePositions smallEditor) 9 (mSelection smallEditor) (QPointF 190 190) = TopLeft
   \<and> \<not> inCornerZone (mHandlePositions squareEditor) 9 (QPointF 250 205)
   \<and> inCircle 9 (h4 (mHandlePositions squareEditor)) (QPointF 250 205)
   \<and> borderStrips (mSelection squareEditor) (QPointF 250 205) = Some Top
   \<and> mouseLocation (mHandlePositions squareEditor) 9 (mSelection squareEditor) (QPointF 250 205) = Top
   \<and> \<not> inCornerZone (mHandlePositions squareEditor) 9 (QPointF 250 250)
   \<and> \<not> inEdgeHandleZone (mHandlePositions squareEditor) 9 (QPointF 250 250)
   \<and> mouseLocation (mHandlePositions squareEditor) 9 (mSelection squareEditor) (QPointF 250 250) = Inside
   \<and> inCornerZoneSE ellipseContainsSpec squareSelectionEditor (QPointF 205 205)
   \<and> isCornerState (mouseLocationSE ellipseContainsSpec squareSelectionEditor (QPointF 205 205))
   \<and> \<not> inCornerZoneSE ellipseContainsSpec squareSelectionEditor (QPointF 250 205)
   \<and> inEdgeHandleZoneSE ellipseContainsSpec squareSelectionEditor (QPointF 250 205)
   \<and> isEdgeState (mouseLocationSE ellipseContainsSpec squareSelectionEditor (QPointF 250 205))
   \<and> \<not> inCornerZoneSE ellipseContainsSpec squareSelectionEditor (QPointF 250 250)
   \<and> \<not> inEdgeHandleZoneSE ellipseContainsSpec squareSelectionEditor (QPointF 250 250)
   \<and> mouseLocationSE ellipseContainsSpec squareSelectionEditor (QPointF 250 250) = Inside"
proof -
  have a: "inCircle 9 (h0 (mHandlePositions smallEditor)) (QPointF 190 190)" by code_simp
  have b: "\<not> inCornerZone (mHandlePositions squareEditor) 9 (QPointF 250 205)" by code_simp
  have c: "inCircle 9 (h4 (mHandlePositions squareEditor)) (QPointF 250 205)" by code_simp
  have d: "borderStrips (mSelection squareEditor) (QPointF 250 205) = Some Top" by code_simp
  have e: "\<not> inCornerZone (mHandlePositions squareEditor) 9 (QPointF 250 250)" by code_simp
  have f: "\<not> inEdgeHandleZone (mHandlePositions squareEditor) 9 (QPointF 250 250)" by code_simp
  have g: "borderLocation (mSelection squareEditor) (QPointF 250 250) = Inside" by code_simp
  have h: "inCornerZoneSE ellipseContainsSpec squareSelectionEditor (QPointF 205 205)" by code_simp
  have i: "\<not> inCornerZoneSE ellipseContainsSpec squareSelectionEditor (QPointF 250 205)" by code_simp
  have j: "inEdgeHandleZoneSE ellipseContainsSpec squareSelectionEditor (QPointF 250 205)" by code_simp
  have k: "\<not> inCornerZoneSE ellipseContainsSpec squareSelectionEditor (QPointF 250 250)" by code_simp
  have l: "\<not> inEdgeHandleZoneSE ellipseContainsSpec squareSelectionEditor (QPointF 250 250)" by code_simp
  have n: "borderLocationSE (normalizedF (d_selection squareSelectionEditor)) (QPointF 250 250) = Inside"
    by code_simp
  show ?thesis
    using a b c d e f g h i j k l n
      mouseLocation_precedence [of 9 "mHandlePositions smallEditor" "QPointF 190 190"
        "mSelection smallEditor" Top ellipseContainsSpec squareSelectionEditor "QPointF 205 205"]
      mouseLocation_precedence [of 9 "mHandlePositions squareEditor" "QPointF 250 205"
        "mSelection squareEditor" Top ellipseContainsSpec squareSelectionEditor "QPointF 250 205"]
      mouseLocation_precedence [of 9 "mHandlePositions squareEditor" "QPointF 250 250"
        "mSelection squareEditor" Top ellipseContainsSpec squareSelectionEditor "QPointF 250 250"]
    by simp
qed

text \<open>
  C9, amended. For a pointer in no handle zone, the classifier tests the border strips
  exactly when width and height of the selection are both at least 100: a border state is
  returned only then, and below 100 the result is \<open>Inside\<close> or \<open>Outside\<close>. This holds for
  \<open>QuickEditor::mouseLocation\<close> and for \<open>SelectionEditorPrivate::mouseLocation\<close>.
\<close>

theorem borderZones_threshold:
  fixes ec :: "qrectf \<Rightarrow> qpointf \<Rightarrow> bool"
  shows
  "(\<not> inCornerZone hp rad pos \<and> \<not> inEdgeHandleZone hp rad pos \<longrightarrow>
      (isEdgeState (mouseLocation hp rad sel pos) \<longrightarrow> 100 \<le> min (width sel) (height sel))
      \<and> (min (width sel) (height sel) < 100
           \<longrightarrow> mouseLocation hp rad sel pos = Inside \<or> mouseLocation hp rad sel pos = Outside)
      \<and> (100 \<le> min (width sel) (height sel)
           \<longrightarrow> mouseLocation hp rad sel pos =
                (case borderStrips sel pos of
                   Some m \<Rightarrow> m
                 | None \<Rightarrow> if containsPoint sel (toPoint pos) then Inside else Outside)))
   \<and> (\<not> inCornerZoneSE ec st p \<and> \<not> inEdgeHandleZoneSE ec st p \<longrightarrow>
      (isEdgeState (mouseLocationSE ec st p)
         \<longrightarrow> 100 \<le> min (rw (normalizedF (d_selection st))) (rh (normalizedF (d_selection st))))
      \<and> (min (rw (normalizedF (d_selection st))) (rh (normalizedF (d_selection st))) < 100
           \<longrightarrow> mouseLocationSE ec st p = Inside \<or> mouseLocationSE ec st p = Outside))"
proof -
  have se: "\<not> inCornerZoneSE ec st p \<and> \<not> inEdgeHandleZoneSE ec st p
        \<Longrightarrow> mouseLocationSE ec st p = borderLocationSE (normalizedF (d_selection st)) p"
    using mouseLocationSE_precedence [of ec st p]
    unfolding inCornerZoneSE_def inEdgeHandleZoneSE_def by metis
  show ?thesis
    using quickEditor_borderZones [of hp rad pos sel]
      borderLocationSE_threshold [of "normalizedF (d_selection st)" p] se
    by presburger
qed

theorem borderZones_threshold_witness:
  "\<not> inCornerZone (mHandlePositions smallEditor) 9 (QPointF 225 225)
   \<and> \<not> inEdgeHandleZone (mHandlePositions smallEditor) 9 (QPointF 225 225)
   \<and> min (width (mSelection smallEditor)) (height (mSelection smallEditor)) < 100
   \<and> (mouseLocation (mHandlePositions smallEditor) 9 (mSelection smallEditor) (QPointF 225 225) = Inside
        \<or> mouseLocation (mHandlePositions smallEditor) 9 (mSelection smallEditor) (QPointF 225 225) = Outside)
   \<and> \<not> inCornerZone (mHandlePositions squareEditor) 9 (QPointF 230 205)
   \<and> \<not> inEdgeHandleZone (mHandlePositions squareEditor) 9 (QPointF 230 205)
   \<and> isEdgeState (mouseLocation (mHandlePositions squareEditor) 9 (mSelection squareEditor) (QPointF 230 205))
   \<and> 100 \<le> min (width (mSelection squareEditor)) (height (mSelection squareEditor))
   \<and> \<not> inCornerZoneSE ellipseContainsSpec smallSelectionEditor (QPointF 225 225)
   \<and> \<not> inEdgeHandleZoneSE ellipseContainsSpec smallSelectionEditor (QPointF 225 225)
   \<and> min (rw (normalizedF (d_selection smallSelectionEditor)))
          (rh (normalizedF (d_selection smallSelectionEditor))) < 100
   \<and> (mouseLocationSE ellipseContainsSpec smallSelectionEditor (QPointF 225 225) = Inside
        \<or> mouseLocationSE ellipseContainsSpec smallSelectionEditor (QPointF 225 225) = Outside)
   \<and> \<not> inCornerZoneSE ellipseContainsSpec squareSelectionEditor (QPointF 230 205)
   \<and> \<not> inEdgeHandleZoneSE ellipseContainsSpec squareSelectionEditor (QPointF 230 205)
   \<and> isEdgeState (mouseLocationSE ellipseContainsSpec squareSelectionEditor (QPointF 230 205))
   \<and> 100 \<le> min (rw (normalizedF (d_selection squareSelectionEditor)))
                 (rh (normalizedF (d_selection squareSelectionEditor)))"
proof -
  have a: "\<not> inCornerZone (mHandlePositions smallEditor) 9 (QPointF 225 225)" by code_simp
  have b: "\<not> inEdgeHandleZone (mHandlePositions smallEditor) 9 (QPointF 225 225)" by code_simp
  have c: "min (width (mSelection smallEditor)) (height (mSelection smallEditor)) < 100" by code_simp
  have e: "\<not> inCornerZone (mHandlePositions squareEditor) 9 (QPointF 230 205)" by code_simp
  have f: "\<not> inEdgeHandleZone (mHandlePositions squareEditor) 9 (QPointF 230 205)" by code_simp
  have h: "isEdgeState (mouseLocation (mHandlePositions squareEditor) 9 (mSelection squareEditor) (QPointF 230 205))"
    by code_simp
  have a': "\<not> inCornerZoneSE ellipseContainsSpec smallSelectionEditor (QPointF 225 225)" by code_simp
  have b': "\<not> inEdgeHandleZoneSE ellipseContainsSpec smallSelectionEditor (QPointF 225 225)" by code_simp
  have c': "min (rw (normalizedF (d_selection smallSelectionEditor)))
          (rh (normalizedF (d_selection smallSelectionEditor))) < 100" by code_simp
  have e': "\<not> inCornerZoneSE ellipseContainsSpec squareSelectionEditor (QPointF 230 205)" by code_simp
  have f': "\<not> inEdgeHandleZoneSE ellipseContainsSpec squareSelectionEditor (QPointF 230 205)" by code_simp
  have h': "isEdgeState (mouseLocationSE ellipseContainsSpec squareSelectionEditor (QPointF 230 205))"
    by code_simp
  show ?thesis
    using a b c e f h a' b' c' e' f' h'
      borderZones_threshold [of "mHandlePositions smallEditor" 9 "QPointF 225 225" "mSelection smallEditor"
         ellipseContainsSpec smallSelectionEditor "QPointF 225 225"]
      borderZones_threshold [of "mHandlePositions squareEditor" 9 "QPointF 230 205" "mSelection squareEditor"
         ellipseContainsSpec squareSelectionEditor "QPointF 230 205"]
    by blast
qed

section \<open>Dragging\<close>

lemma mouseMove_wellFormed:
  assumes "0 \<le> devicePixelRatioI st" "wellFormed (mSelection st)"
  shows "wellFormed (mSelection (mouseMoveEvent pos st))"
proof -
  have w: "0 \<le> real_of_int (width (mSelection st))" "0 \<le> real_of_int (height (mSelection st))"
    using assms(2) by (simp_all add: wellFormed_def)
  show ?thesis
    using assms w
    by (cases "mMouseDragState st")
       (simp_all add: mouseMoveEvent_def Let_def wellFormed_setRectF moveInside_def wellFormed_moveTo)
qed

lemma mouseMove_dprI: "devicePixelRatioI (mouseMoveEvent pos st) = devicePixelRatioI st"
  by (cases "mMouseDragState st") (simp_all add: mouseMoveEvent_def Let_def)

lemma acceptSelection_keeps:
  "mSelection (acceptSelection pf st) = mSelection st"
  "devicePixelRatioI (acceptSelection pf st) = devicePixelRatioI st"
  by (simp_all add: acceptSelection_def Let_def split: sum.splits)

lemma mousePress_keeps:
  "mSelection (mousePressEvent pos b s st) = mSelection st"
  "devicePixelRatioI (mousePressEvent pos b s st) = devicePixelRatioI st"
  by (simp_all add: mousePressEvent_def Let_def split: MouseState.splits)

lemma mouseRelease_wellFormed:
  "wellFormed (mSelection st) \<Longrightarrow> wellFormed (mSelection (mouseReleaseEvent pf b st))"
  by (cases b) (simp_all add: mouseReleaseEvent_def acceptSelection_keeps wellFormed_def
      setWidth_def setHeight_def width_def height_def)

lemma mouseRelease_dprI: "devicePixelRatioI (mouseReleaseEvent pf b st) = devicePixelRatioI st"
  by (cases b) (simp_all add: mouseReleaseEvent_def acceptSelection_keeps)

lemma keyPress_wellFormed:
  "wellFormed (mSelection st) \<Longrightarrow> wellFormed (mSelection (keyPressEvent pf k sh al st))"
  by (cases k)
     (simp_all add: keyPressEvent_def Let_def acceptSelection_keeps arrowUp_def arrowDown_def
        arrowLeft_def arrowRight_def wellFormed_normalized wellFormed_moves)

lemma keyPress_dprI: "devicePixelRatioI (keyPressEvent pf k sh al st) = devicePixelRatioI st"
  by (cases k) (simp_all add: keyPressEvent_def Let_def acceptSelection_keeps)

lemma paint_keeps:
  "mSelection (paintEvent pw st) = mSelection st"
  "devicePixelRatioI (paintEvent pw st) = devicePixelRatioI st"
  by (simp_all add: paintEvent_def drawDragHandles_def Let_def)

lemma doubleClick_keeps:
  "mSelection (mouseDoubleClickEvent pf pos b st) = mSelection st"
  "devicePixelRatioI (mouseDoubleClickEvent pf pos b st) = devicePixelRatioI st"
  by (simp_all add: mouseDoubleClickEvent_def acceptSelection_keeps)

lemma handleEvent_invariant:
  "0 \<le> devicePixelRatioI st \<and> wellFormed (mSelection st) \<Longrightarrow>
   0 \<le> devicePixelRatioI (handleEvent pf st ev) \<and> wellFormed (mSelection (handleEvent pf st ev))"
  by (cases ev)
     (simp_all add: mouseMove_wellFormed mouseMove_dprI mousePress_keeps mouseRelease_wellFormed
        mouseRelease_dprI keyPress_wellFormed keyPress_dprI paint_keeps doubleClick_keeps)

lemma handleEvents_invariant:
  "0 \<le> devicePixelRatioI st \<and> wellFormed (mSelection st) \<Longrightarrow>
   0 \<le> devicePixelRatioI (handleEvents pf st evs) \<and> wellFormed (mSelection (handleEvents pf st evs))"
  unfolding handleEvents_def
proof (induction evs arbitrary: st)
  case Nil
  then show ?case by simp
next
  case (Cons ev evs)
  show ?case
    using Cons.IH [OF handleEvent_invariant [OF Cons.prems]] by simp
qed

lemma quickEditor_never_inverted:
  assumes "0 \<le> devicePixelRatioI st" and "0 \<le> width (mSelection st)" and "0 \<le> height (mSelection st)"
  shows "0 \<le> width (mSelection (handleEvents pf st (evs @ [MouseMove pos])))
       \<and> 0 \<le> height (mSelection (handleEvents pf st (evs @ [MouseMove pos])))"
  using handleEvents_invariant [of st pf "evs @ [MouseMove pos]"] assms
  by (simp add: wellFormed_def)

lemma mouseMoveEventSE_wellFormed:
  assumes "0 \<le> d_devicePixel st" and "0 \<le> d_devicePixelRatio st"
    and "0 \<le> rw (d_selection st)" and "0 \<le> rh (d_selection st)"
    and "\<forall>r b. 0 \<le> rw r \<and> 0 \<le> rh r \<longrightarrow> 0 \<le> rw (rectBounded r b) \<and> 0 \<le> rh (rectBounded r b)"
    and "mouseMoveEventSE rectBounded mousePos st = Some r"
  shows "0 \<le> rw r \<and> 0 \<le> rh r"
proof (cases "d_dragLocation st = Inside")
  case True
  let ?dpr = "d_devicePixelRatio st"
  have sz: "0 \<le> rw (d_selection st) * ?dpr" "0 \<le> rh (d_selection st) * ?dpr"
    using assms(2,3,4) by simp_all
  have "r = moveInsideSE rectBounded mousePos st"
    using assms(6) True by (simp add: mouseMoveEventSE_def Let_def)
  then obtain a where r: "r = rectBounded a (d_screensRect st)"
    and a: "rw a = rw (d_selection st) * ?dpr" "rh a = rh (d_selection st) * ?dpr"
    by (simp add: moveInsideSE_def Let_def QRectF_def moveToF_def split: if_splits)
  show ?thesis
    using assms(5) sz a r by simp
next
  case False
  then show ?thesis
    using assms(1,3,4,6)
    by (cases "d_dragLocation st") (auto simp: mouseMoveEventSE_def Let_def QRectF_def)
qed

lemma rectBoundedSpec_keeps_size:
  "\<forall>r b. 0 \<le> rw r \<and> 0 \<le> rh r \<longrightarrow> 0 \<le> rw (rectBoundedSpec r b) \<and> 0 \<le> rh (rectBoundedSpec r b)"
  by (simp add: rectBoundedSpec_def)

text \<open>
  C6. Whatever events \<open>QuickEditor\<close> has handled (presses, moves, releases, double clicks,
  keys, repaints, in any order and hence in any drag state), after a pointer-move event the
  selection has non-negative width and height, provided the editor started with a
  selection that is not inverted and a non-negative \<open>devicePixelRatioI\<close>. In
  \<open>SelectionEditor::mouseMoveEvent\<close>, every rectangle handed to the selection has
  non-negative width and height, in every drag state, provided the current selection is
  not inverted, the ratio and the device pixel are not negative, and \<open>rectBounded\<close> does
  not invert a rectangle.
\<close>

theorem drag_never_inverted:
  "(0 \<le> devicePixelRatioI q \<and> 0 \<le> width (mSelection q) \<and> 0 \<le> height (mSelection q)
    \<longrightarrow> 0 \<le> width (mSelection (handleEvents pf q (evs @ [MouseMove pos])))
        \<and> 0 \<le> height (mSelection (handleEvents pf q (evs @ [MouseMove pos]))))
   \<and> (0 \<le> d_devicePixel st \<and> 0 \<le> d_devicePixelRatio st
      \<and> 0 \<le> rw (d_selection st) \<and> 0 \<le> rh (d_selection st)
      \<and> (\<forall>r b. 0 \<le> rw r \<and> 0 \<le> rh r \<longrightarrow> 0 \<le> rw (rectBounded r b) \<and> 0 \<le> rh (rectBounded r b))
      \<and> mouseMoveEventSE rectBounded mousePos st = Some r
    \<longrightarrow> 0 \<le> rw r \<and> 0 \<le> rh r)"
  using quickEditor_never_inverted [of q pf evs pos]
    mouseMoveEventSE_wellFormed [of st rectBounded mousePos r]
  by blast

theorem drag_never_inverted_witness:
  "0 \<le> devicePixelRatioI (freshEditor (QRect 0 0 100 100))
   \<and> 0 \<le> width (mSelection (freshEditor (QRect 0 0 100 100)))
   \<and> 0 \<le> height (mSelection (freshEditor (QRect 0 0 100 100)))
   \<and> mMouseDragState (handleEvents waylandNoScreens (freshEditor (QRect 0 0 100 100)) fullWidthDrag) = Inside
   \<and> 0 \<le> width (mSelection (handleEvents waylandNoScreens (freshEditor (QRect 0 0 100 100))
                                (fullWidthDrag @ [MouseMove (QPoint 50 0)])))
   \<and> 0 \<le> height (mSelection (handleEvents waylandNoScreens (freshEditor (QRect 0 0 100 100))
                                 (fullWidthDrag @ [MouseMove (QPoint 50 0)])))
   \<and> 0 \<le> d_devicePixel anchoredEditor \<and> 0 \<le> d_devicePixelRatio anchoredEditor
   \<and> 0 \<le> rw (d_selection anchoredEditor) \<and> 0 \<le> rh (d_selection anchoredEditor)
   \<and> d_dragLocation anchoredEditor = TopLeft
   \<and> mouseMoveEventSE rectBoundedSpec (QPointF 100 100) anchoredEditor = Some (QRectF 100 100 700 500)
   \<and> 0 \<le> rw (QRectF 100 100 700 500) \<and> 0 \<le> rh (QRectF 100 100 700 500)"
proof -
  have a: "0 \<le> devicePixelRatioI (freshEditor (QRect 0 0 100 100))" by code_simp
  have b: "0 \<le> width (mSelection (freshEditor (QRect 0 0 100 100)))" by code_simp
  have c: "0 \<le> height (mSelection (freshEditor (QRect 0 0 100 100)))" by code_simp
  have d: "mMouseDragState (handleEvents waylandNoScreens (freshEditor (QRect 0 0 100 100)) fullWidthDrag) = Inside"
    by code_simp
  have e: "0 \<le> d_devicePixel anchoredEditor" "0 \<le> d_devicePixelRatio anchoredEditor"
          "0 \<le> rw (d_selection anchoredEditor)" "0 \<le> rh (d_selection anchoredEditor)"
          "d_dragLocation anchoredEditor = TopLeft"
    by code_simp+
  have f: "mouseMoveEventSE rectBoundedSpec (QPointF 100 100) anchoredEditor = Some (QRectF 100 100 700 500)"
    by code_simp
  note g = rectBoundedSpec_keeps_size
  show ?thesis
    using a b c d e f g
      drag_never_inverted [of "freshEditor (QRect 0 0 100 100)" waylandNoScreens fullWidthDrag "QPoint 50 0"
         anchoredEditor rectBoundedSpec "QPointF 100 100" "QRectF 100 100 700 500"]
    by blast
qed

text \<open>
  C7. Evaluation of \<open>QuickEditor::mouseMoveEvent\<close> in the \<open>Inside\<close> state at a selection
  spanning the full width of a 100x100 canvas: dragged to the top edge, it is put at
  \<open>x = -1\<close>, outside the screens' rectangle. The clamp takes \<open>right()\<close>, the last column
  99, for the width 100 of the rectangle.
\<close>

theorem moveInside_leaves_bounds:
  "mMouseDragState (handleEvents waylandNoScreens (freshEditor (QRect 0 0 100 100)) fullWidthDrag) = Inside
   \<and> mSelection (handleEvents waylandNoScreens (freshEditor (QRect 0 0 100 100)) fullWidthDrag)
       = QRect 0 50 100 20
   \<and> mSelection (handleEvents waylandNoScreens (freshEditor (QRect 0 0 100 100))
                   (fullWidthDrag @ [MouseMove (QPoint 50 0)]))
       = QRect (- 1) 0 100 20
   \<and> \<not> containsRect (QRect 0 0 100 100) (QRect (- 1) 0 100 20)"
  by code_simp

section \<open>Building the canvas\<close>

lemma shiftEntry_zero: "point \<in> dom tm \<Longrightarrow> shiftEntry p nw nh 0 0 point tm = tm"
  by (auto simp: shiftEntry_def mapValue_def Let_def fun_upd_idem_iff)

lemma fold_shiftEntry_zero:
  "set ks \<subseteq> dom tm \<Longrightarrow> fold (shiftEntry p nw nh 0 0) ks tm = tm"
  by (induction ks) (simp_all add: shiftEntry_zero)

lemma scalingLoop_id:
  "fst ` set outputsRect \<subseteq> dom tm \<Longrightarrow> scalingLoop outputsRect tm = tm"
proof (induction outputsRect arbitrary: tm)
  case Nil
  then show ?case by simp
next
  case (Cons e rest)
  obtain p dpr sz where e: "e = (p, dpr, sz)" by (cases e)
  have keys: "set (p # map fst rest) \<subseteq> dom tm"
    using Cons.prems e by auto
  have rest: "fst ` set rest \<subseteq> dom tm"
    using Cons.prems by auto
  show ?case
    using Cons.IH [OF rest] fold_shiftEntry_zero [OF keys]
    by (simp add: e)
qed

lemma fold_insert_dom:
  "dom (fold (\<lambda>i tm. tm(i \<mapsto> i)) ks tm) = set ks \<union> dom tm"
  by (induction ks arbitrary: tm) auto

lemma fold_insert_lookup:
  "fold (\<lambda>i tm. tm(i \<mapsto> i)) ks tm k = (if k \<in> set ks then Some k else tm k)"
  by (induction ks arbitrary: tm) auto

lemma computeCoordinatesAfterScaling_identity:
  "computeCoordinatesAfterScaling outputsRect k =
     (if k \<in> fst ` set outputsRect then Some k else None)"
proof -
  have "fst ` set outputsRect \<subseteq> dom (fold (\<lambda>i tm. tm(i \<mapsto> i)) (map fst outputsRect) Map.empty)"
    by (simp add: fold_insert_dom)
  then show ?thesis
    by (simp add: computeCoordinatesAfterScaling_def scalingLoop_id fold_insert_lookup)
qed

lemma shiftOne_zero:
  "i2 < length tp \<Longrightarrow> shiftOne screenImages p nw nh 0 0 i2 tp = tp"
  by (simp add: shiftOne_def Let_def)

lemma fold_shiftOne_zero:
  "\<forall>i2 \<in> set is. i2 < length tp \<Longrightarrow> fold (shiftOne screenImages p nw nh 0 0) is tp = tp"
  by (induction "is") (simp_all add: shiftOne_zero)

lemma shiftFollowing_id:
  "length tp = length screenImages \<Longrightarrow> shiftFollowing screenImages i tp = tp"
  by (simp add: shiftFollowing_def Let_def fold_shiftOne_zero)

lemma fold_shiftFollowing_id:
  "length tp = length screenImages \<Longrightarrow> fold (shiftFollowing screenImages) is tp = tp"
  by (induction "is") (simp_all add: shiftFollowing_id)

lemma coordinatesAfterScaling_unshifted:
  "coordinatesAfterScaling screenImages = map (\<lambda>ci. toPoint (topLeftF (rect ci))) screenImages"
  by (simp add: coordinatesAfterScaling_def fold_shiftFollowing_id)

text \<open>
  C1. Evaluation of \<open>SelectionEditor::setScreenImages\<close> on a screen of ratio 2 followed by
  a screen of ratio 1 to its right: the deltas of the shifting loop are computed as
  \<open>newWidth - size.width()\<close> with \<open>newWidth = size.width()\<close>, so no point is shifted
  (\<open>coordinatesAfterScaling_unshifted\<close>), and the second image is painted over the right
  half of the first.
\<close>

theorem setScreenImages_overlap:
  "map paintedRect (pops (d_image (setScreenImages (waylandAt 2) [denseScreen, plainScreen] freshSelectionEditor)))
     = [QRect 0 0 3840 2160, QRect 1920 0 1920 1080]
   \<and> intersects (QRect 0 0 3840 2160) (QRect 1920 0 1920 1080)"
  by code_simp

section \<open>Committing the selection\<close>












text \<open>
  C10. \<open>SelectionEditor::acceptSelection\<close> called without stored screen images returns
  \<open>false\<close> and leaves the editor as it was: no signal is emitted and the selection, the
  settings and the annotation canvas are unchanged. With stored screen images it returns
  \<open>true\<close>.
\<close>

theorem acceptSelectionSE_empty_images:
  "(d_screenImages st = [] \<longrightarrow> acceptSelectionSE pf rectClipped st = (False, st)) \<and>
   (d_screenImages st \<noteq> [] \<longrightarrow> fst (acceptSelectionSE pf rectClipped st) = True)"
  by (simp add: acceptSelectionSE_def Let_def split: sum.splits)

theorem acceptSelectionSE_empty_images_witness:
  "d_screenImages freshSelectionEditor = []
   \<and> acceptSelectionSE (waylandAt 2) (\<lambda>r b. r) freshSelectionEditor = (False, freshSelectionEditor)
   \<and> d_screenImages (setScreenImages (waylandAt 2) [denseScreen, plainScreen] freshSelectionEditor) \<noteq> []
   \<and> fst (acceptSelectionSE (waylandAt 2) (\<lambda>r b. r)
             (setScreenImages (waylandAt 2) [denseScreen, plainScreen] freshSelectionEditor)) = True"
proof -
  have a: "d_screenImages freshSelectionEditor = []" by code_simp
  have b: "d_screenImages (setScreenImages (waylandAt 2) [denseScreen, plainScreen] freshSelectionEditor) \<noteq> []"
    by (simp add: setScreenImages_def Let_def)
  show ?thesis
    using a b
      acceptSelectionSE_empty_images [of freshSelectionEditor "waylandAt 2" "\<lambda>r b. r"]
      acceptSelectionSE_empty_images [of "setScreenImages (waylandAt 2) [denseScreen, plainScreen] freshSelectionEditor"
         "waylandAt 2" "\<lambda>r b. r"]
    by blast
qed















text \<open>
  C2, as the specification states it, fails in \<open>QuickEditor\<close>: committing the empty
  selection (500,500,0,0) on a 1920x1080 canvas emits nothing and changes nothing, on
  either platform.
\<close>

theorem empty_commit_ignored:
  "isEmpty (QRect 500 500 0 0)
   \<and> acceptSelection (oneScreen False) ((fullHDEditor False)\<lparr>mSelection := QRect 500 500 0 0\<rparr>)
       = (fullHDEditor False)\<lparr>mSelection := QRect 500 500 0 0\<rparr>
   \<and> emitted (acceptSelection (oneScreen False) ((fullHDEditor False)\<lparr>mSelection := QRect 500 500 0 0\<rparr>)) = []
   \<and> acceptSelection (oneScreen True) ((fullHDEditor True)\<lparr>mSelection := QRect 500 500 0 0\<rparr>)
       = (fullHDEditor True)\<lparr>mSelection := QRect 500 500 0 0\<rparr>
   \<and> emitted (acceptSelection (oneScreen True) ((fullHDEditor True)\<lparr>mSelection := QRect 500 500 0 0\<rparr>)) = []"
  by code_simp

text \<open>
  C2, amended. \<open>SelectionEditor::acceptSelection\<close>, called with screen images and an empty
  selection, returns \<open>true\<close> and takes the whole screens' rectangle in place of the
  selection: the annotation canvas is cropped to it and, on X11, the image crop region is
  computed from it. \<open>QuickEditor::acceptSelection\<close> ignores an empty selection.
\<close>

theorem empty_selection_falls_back:
  assumes "d_screenImages st \<noteq> []" and "isEmptyF (normalizedF (d_selection st))"
  shows "fst (acceptSelectionSE pf rectClipped st) = True
       \<and> canvasCrop (snd (acceptSelectionSE pf rectClipped st)) = Some (d_screensRect st)
       \<and> (isX11 pf \<longrightarrow>
            emittedSE (snd (acceptSelectionSE pf rectClipped st))
            = emittedSE st @
              [grabDoneSE
                 (let img = (d_image st)\<lparr>pdpr := appDevicePixelRatio pf\<rparr>;
                      whole = scaledF (d_screensRect st) (d_devicePixelRatio st);
                      imageCropRegion = toRect (rectClipped whole whole)
                  in if rsize imageCropRegion \<noteq> psize img then GrabPixmapCopy img imageCropRegion
                     else GrabPixmap img)])
       \<and> (isEmpty (mSelection q) \<longrightarrow> acceptSelection qpf q = q)"
proof -
  have qe: "isEmpty (mSelection q) \<longrightarrow> acceptSelection qpf q = q"
    by (simp add: acceptSelection_def)
  have se: "fst (acceptSelectionSE pf rectClipped st) = True
       \<and> canvasCrop (snd (acceptSelectionSE pf rectClipped st)) = Some (d_screensRect st)
       \<and> (isX11 pf \<longrightarrow>
            emittedSE (snd (acceptSelectionSE pf rectClipped st))
            = emittedSE st @
              [grabDoneSE
                 (let img = (d_image st)\<lparr>pdpr := appDevicePixelRatio pf\<rparr>;
                      whole = scaledF (d_screensRect st) (d_devicePixelRatio st);
                      imageCropRegion = toRect (rectClipped whole whole)
                  in if rsize imageCropRegion \<noteq> psize img then GrabPixmapCopy img imageCropRegion
                     else GrabPixmap img)])"
    using assms by (simp add: acceptSelectionSE_def Let_def split: sum.splits)
  show ?thesis using qe se by blast
qed

theorem empty_selection_falls_back_witness:
  "d_screenImages ((setScreenImages (x11At 1) [fullHD] freshSelectionEditor)\<lparr>d_selection := QRectF 500 500 0 0\<rparr>) \<noteq> []
   \<and> isEmptyF (normalizedF (QRectF 500 500 0 0))
   \<and> isX11 (x11At 1)
   \<and> isEmpty (mSelection ((fullHDEditor True)\<lparr>mSelection := QRect 500 500 0 0\<rparr>))
   \<and> acceptSelectionSE (x11At 1) (\<lambda>r b. r)
        ((setScreenImages (x11At 1) [fullHD] freshSelectionEditor)\<lparr>d_selection := QRectF 500 500 0 0\<rparr>)
      = (True,
         (setScreenImages (x11At 1) [fullHD] freshSelectionEditor)
           \<lparr>d_selection := QRectF 500 500 0 0,
            canvasCrop := Some (QRectF 0 0 1920 1080),
            emittedSE := [screensRectChanged, screenImagesChanged,
              grabDoneSE (GrabPixmap
                \<lparr>psize = QSize 1920 1080, pdpr = 1,
                 pops = [DrawImage (QPoint 0 0)
                           \<lparr>isize = QSize 1920 1080, idpr = 1, idata = Captured 0\<rparr>]\<rparr>)]\<rparr>)"
proof -
  let ?st = "(setScreenImages (x11At 1) [fullHD] freshSelectionEditor)\<lparr>d_selection := QRectF 500 500 0 0\<rparr>"
  let ?q = "(fullHDEditor True)\<lparr>mSelection := QRect 500 500 0 0\<rparr>"
  have a: "d_screenImages ?st \<noteq> []" by code_simp
  have b: "isEmptyF (normalizedF (d_selection ?st))" by code_simp
  have b': "isEmptyF (normalizedF (QRectF 500 500 0 0))" by code_simp
  have c: "isX11 (x11At 1)" by code_simp
  have d: "isEmpty (mSelection ?q)" by code_simp
  have e: "acceptSelectionSE (x11At 1) (\<lambda>r b. r) ?st
      = (True,
         (setScreenImages (x11At 1) [fullHD] freshSelectionEditor)
           \<lparr>d_selection := QRectF 500 500 0 0,
            canvasCrop := Some (QRectF 0 0 1920 1080),
            emittedSE := [screensRectChanged, screenImagesChanged,
              grabDoneSE (GrabPixmap
                \<lparr>psize = QSize 1920 1080, pdpr = 1,
                 pops = [DrawImage (QPoint 0 0)
                           \<lparr>isize = QSize 1920 1080, idpr = 1, idata = Captured 0\<rparr>]\<rparr>)]\<rparr>)"
    by code_simp
  show ?thesis
    using empty_selection_falls_back [OF a b, of "x11At 1" "\<lambda>r b. r" ?q "oneScreen True"] a b' c d e
    by blast
qed

text \<open>On the Wayland branch the rectangle is read again from the selection: the commit of
  an empty selection emits an empty image there.\<close>

lemma acceptSelectionSE_wayland_empty:
  "emittedSE (snd (acceptSelectionSE (waylandAt 1) (\<lambda>r b. r)
      ((setScreenImages (waylandAt 1) [fullHD] freshSelectionEditor)\<lparr>d_selection := QRectF 500 500 0 0\<rparr>)))
   = [screensRectChanged, screenImagesChanged,
      grabDoneSE (GrabPixmap \<lparr>psize = QSize 0 0, pdpr = 1, pops = []\<rparr>)]"
  by code_simp

section \<open>Arrow keys\<close>


text \<open>The clamp of Down and Right in \<open>QuickEditor::keyPressEvent\<close> takes \<open>height()\<close> and
  \<open>width()\<close>, one past the last row and column, where Up and Left take 0, the first:
  Shift+Down on a selection touching the bottom edge of a 100x100 canvas moves it to rows
  91..100.\<close>

lemma arrowDown_past_last_row:
  "mSelection (handleEvents waylandNoScreens (freshEditor (QRect 0 0 100 100)) bottomEdgeDrag)
     = QRect 0 90 10 10
   \<and> mSelection (handleEvents waylandNoScreens (freshEditor (QRect 0 0 100 100))
                   (bottomEdgeDrag @ [KeyPress Key_Down True False]))
     = QRect 0 91 10 10
   \<and> \<not> containsRect (QRect 0 0 100 100) (QRect 0 91 10 10)"
  by code_simp




















end
